theory Spec2Isabelle
  imports Main "HOL-Library.Sublist"
begin

section \<open>Zoho Projects time tracker: timer state machine and OAuth redirect capture\<close>

text \<open>
  A shallow embedding of the TypeScript sources: \<open>TasksManager\<close> (tasks.ts),
  \<open>ZohoStatusBar\<close> (status-bar.ts), \<open>LocalAuthServer\<close> (local-auth-server.ts) and the
  three drafts of \<open>ZohoAuthenticationProvider\<close> (loopback server with
  \<open>LocalAuthServer\<close>, custom URI scheme handler, and authentication.ts.new with an inline
  HTTP server).

  Conventions. Every \<open>await\<close> on an external collaborator (REST call, browser launch,
  HTTP request arriving, clock) is a parameter of the operation that says what the
  collaborator answered. Mutation of \<open>this\<close> is state passing. External actions that the
  operation performs are returned as a list, in the order in which the source performs
  them, so that "no remote call was issued" is a statement about that list.
  \<open>Date.getTime()\<close> values are integers (milliseconds); they are far below \<open>2^53\<close>, so
  the floating point arithmetic of the source is exact on them and \<open>int\<close> models it.
\<close>

subsection \<open>JavaScript arithmetic helpers\<close>

text \<open>\<open>a % b\<close> in JavaScript truncates towards zero: the sign follows the dividend.\<close>

definition js_rem :: "int \<Rightarrow> int \<Rightarrow> int" where
  "js_rem a b = (if a < 0 then - ((- a) mod \<bar>b\<bar>) else a mod \<bar>b\<bar>)"

text \<open>\<open>Math.floor(a / b)\<close> for integers \<open>a\<close> and a positive integer \<open>b\<close>.\<close>

definition js_floor_div :: "int \<Rightarrow> int \<Rightarrow> int" where
  "js_floor_div a b = a div b"

text \<open>
  Truthiness of a value of type \<open>string | undefined\<close> (or \<open>string | null\<close>): the empty
  string is falsy. \<open>x || d\<close> for such a value; after a truthiness test, \<open>or_default x []\<close>
  is the string itself.
\<close>

definition truthy :: "string option \<Rightarrow> bool" where
  "truthy v = (case v of None \<Rightarrow> False | Some s \<Rightarrow> s \<noteq> [])"

definition or_default :: "string option \<Rightarrow> string \<Rightarrow> string" where
  "or_default x d = (if truthy x then (case x of Some s \<Rightarrow> s | None \<Rightarrow> d) else d)"

subsection \<open>tasks.ts: the data\<close>

text \<open>
  \<open>ZohoTask\<close> (api.ts): the fields the timer code reads are \<open>id\<close>, \<open>project.id\<close> and the
  optional \<open>subtasks\<close>.
\<close>

datatype ZohoTask =
  ZohoTask (task_id: string) (task_name: string) (task_project_id: string)
           (subtasks: "ZohoTask list option")

text \<open>The anonymous object type of \<open>TasksManager.currentTimer\<close>.\<close>

record timer =
  taskId :: string
  projectId :: string
  startTime :: int
  isPaused :: bool
  pausedAt :: "int option"
  totalPausedMs :: int

text \<open>
  \<open>ZohoTimeLog\<close> (api.ts), as built by \<open>stopTimer\<close> (the accented letter of the note is
  written without its accent here).
\<close>

record ZohoTimeLog =
  log_task_id :: string
  hours :: int
  minutes :: int
  work_date :: string
  bill_status :: string
  log_notes :: string

text \<open>
  \<open>TasksManager\<close>. \<open>apiClient\<close> is the client object (it only holds the access token) or
  \<open>undefined\<close>; an object is truthy whatever it holds. \<open>portalId\<close> is a string or
  \<open>undefined\<close>, tested for truthiness.
\<close>

record TasksManager =
  apiClient :: "string option"
  portalId :: "string option"
  tasks :: "ZohoTask list"
  currentTimer :: "timer option"

text \<open>
  What the remote service answered to one call of \<open>ZohoApiClient\<close>. Each client method
  returns \<open>response.data\<close> (of type \<open>any\<close>; the callers only test its truthiness) and, on
  any failure, \<open>handleApiError\<close> throws, so the \<open>return null\<close> after it is never reached.
\<close>

datatype api_result = ApiThrows | ApiData bool

text \<open>The remote calls a timer operation issues: portal, project, task.\<close>

datatype api_call =
    StartTimerCall string string string
  | PauseTimerCall string string string
  | StopTimerCall string string string
  | LogTimeCall string string ZohoTimeLog
  | GetMyTasksCall string

subsection \<open>tasks.ts: the operations\<close>

text \<open>\<open>Array.prototype.find\<close>: the first element that satisfies the predicate.\<close>

fun find_first :: "('a \<Rightarrow> bool) \<Rightarrow> 'a list \<Rightarrow> 'a option" where
  "find_first P [] = None"
| "find_first P (x # xs) = (if P x then Some x else find_first P xs)"

text \<open>The \<open>for\<close> loop of \<open>findTaskById\<close> over the subtasks of each parent task.\<close>

fun find_in_subtasks :: "string \<Rightarrow> ZohoTask list \<Rightarrow> ZohoTask option" where
  "find_in_subtasks tid [] = None"
| "find_in_subtasks tid (parentTask # rest) =
     (case subtasks parentTask of
        None \<Rightarrow> find_in_subtasks tid rest
      | Some sts \<Rightarrow>
          (case find_first (\<lambda>st. task_id st = tid) sts of
             Some subtask \<Rightarrow> Some subtask
           | None \<Rightarrow> find_in_subtasks tid rest))"

definition findTaskById :: "TasksManager \<Rightarrow> string \<Rightarrow> ZohoTask option" where
  "findTaskById m tid =
     (case find_first (\<lambda>t. task_id t = tid) (tasks m) of
        Some task \<Rightarrow> Some task
      | None \<Rightarrow> find_in_subtasks tid (tasks m))"

text \<open>
  \<open>loadMyTasks\<close>: \<open>res\<close> is the outcome of \<open>apiClient.getMyTasks\<close> (\<open>None\<close> when it throws).
\<close>

definition loadMyTasks ::
  "ZohoTask list option \<Rightarrow> TasksManager \<Rightarrow> ZohoTask list \<times> TasksManager \<times> api_call list" where
  "loadMyTasks res m =
     (if apiClient m = None \<or> \<not> truthy (portalId m) then ([], m, [])
      else
        (let portal = or_default (portalId m) []
         in case res of
              None \<Rightarrow> ([], m, [GetMyTasksCall portal])
            | Some ts \<Rightarrow> (ts, m\<lparr>tasks := ts\<rparr>, [GetMyTasksCall portal])))"

text \<open>
  \<open>startTimer(taskId)\<close>. \<open>now\<close> is the clock reading of \<open>new Date()\<close>, \<open>api\<close> the outcome of
  \<open>apiClient.startTimer\<close> if that call is made. The result is the returned boolean, the
  manager afterwards, and the remote calls issued. \<open>startTimer_new\<close> is the part after the
  comment "Iniciar nuevo temporizador".
\<close>

definition startTimer_new ::
  "int \<Rightarrow> api_result \<Rightarrow> TasksManager \<Rightarrow> string \<Rightarrow> string \<Rightarrow> string
     \<Rightarrow> bool \<times> TasksManager \<times> api_call list" where
  "startTimer_new now api m portal project tid =
     (case api of
        ApiData True \<Rightarrow>
          (True,
           m\<lparr>currentTimer := Some \<lparr>taskId = tid, projectId = project, startTime = now,
              isPaused = False, pausedAt = None, totalPausedMs = 0\<rparr>\<rparr>,
           [StartTimerCall portal project tid])
      | _ \<Rightarrow> (False, m, [StartTimerCall portal project tid]))"

definition startTimer ::
  "int \<Rightarrow> api_result \<Rightarrow> TasksManager \<Rightarrow> string \<Rightarrow> bool \<times> TasksManager \<times> api_call list" where
  "startTimer now api m tid =
     (if apiClient m = None \<or> \<not> truthy (portalId m) then (False, m, [])
      else
        (let portal = or_default (portalId m) []
         in case findTaskById m tid of
              None \<Rightarrow> (False, m, [])
            | Some task \<Rightarrow>
                (let project = task_project_id task
                 in case currentTimer m of
                      Some t \<Rightarrow>
                        if taskId t = tid \<and> isPaused t then
                          (True,
                           m\<lparr>currentTimer := Some
                               (case pausedAt t of
                                  Some p \<Rightarrow> t\<lparr>isPaused := False,
                                               totalPausedMs := totalPausedMs t + (now - p),
                                               pausedAt := None\<rparr>
                                | None \<Rightarrow> t\<lparr>isPaused := False\<rparr>)\<rparr>,
                           [])
                        else startTimer_new now api m portal project tid
                    | None \<Rightarrow> startTimer_new now api m portal project tid)))"

text \<open>\<open>pauseTimer()\<close>: \<open>api\<close> is the outcome of \<open>apiClient.pauseTimer\<close> if that call is made.\<close>

definition pauseTimer ::
  "int \<Rightarrow> api_result \<Rightarrow> TasksManager \<Rightarrow> bool \<times> TasksManager \<times> api_call list" where
  "pauseTimer now api m =
     (if apiClient m = None \<or> \<not> truthy (portalId m) then (False, m, [])
      else
        (case currentTimer m of
           None \<Rightarrow> (False, m, [])
         | Some t \<Rightarrow>
             if isPaused t then (False, m, [])
             else
               (let call = PauseTimerCall (or_default (portalId m) []) (projectId t) (taskId t)
                in case api of
                     ApiData True \<Rightarrow>
                       (True,
                        m\<lparr>currentTimer := Some (t\<lparr>isPaused := True, pausedAt := Some now\<rparr>)\<rparr>,
                        [call])
                   | _ \<Rightarrow> (False, m, [call]))))"

text \<open>
  The elapsed time \<open>stopTimer\<close> computes (its \<open>totalMs\<close>), and the time log it derives
  from it. \<open>today\<close> is \<open>new Date().toISOString().split("T")[0]\<close>.
\<close>

definition stopTimer_totalMs :: "int \<Rightarrow> timer \<Rightarrow> int" where
  "stopTimer_totalMs now t = now - startTime t - totalPausedMs t"

definition stopTimer_timeLog :: "int \<Rightarrow> string \<Rightarrow> timer \<Rightarrow> ZohoTimeLog" where
  "stopTimer_timeLog now today t =
     (let totalMs = stopTimer_totalMs now t;
          totalMinutes = js_floor_div totalMs (1000 * 60)
      in \<lparr>log_task_id = taskId t,
          hours = js_floor_div totalMinutes 60,
          minutes = js_rem totalMinutes 60,
          work_date = today,
          bill_status = ''Billable'',
          log_notes = ''Tiempo registrado automaticamente por VS Code Extension''\<rparr>)"

text \<open>
  \<open>stopTimer()\<close>: \<open>stop_res\<close> and \<open>log_res\<close> are the outcomes of \<open>apiClient.stopTimer\<close> and
  \<open>apiClient.logTime\<close>. The value of \<open>logTime\<close> is not inspected; only its throwing
  reaches the \<open>catch\<close>.
\<close>

definition stopTimer ::
  "int \<Rightarrow> string \<Rightarrow> api_result \<Rightarrow> api_result \<Rightarrow> TasksManager
     \<Rightarrow> bool \<times> TasksManager \<times> api_call list" where
  "stopTimer now today stop_res log_res m =
     (if apiClient m = None \<or> \<not> truthy (portalId m) then (False, m, [])
      else
        (case currentTimer m of
           None \<Rightarrow> (False, m, [])
         | Some t \<Rightarrow>
             (let portal = or_default (portalId m) [];
                  stop = StopTimerCall portal (projectId t) (taskId t)
              in case stop_res of
                   ApiData True \<Rightarrow>
                     (let log = LogTimeCall portal (projectId t) (stopTimer_timeLog now today t)
                      in case log_res of
                           ApiThrows \<Rightarrow> (False, m, [stop, log])
                         | ApiData _ \<Rightarrow> (True, m\<lparr>currentTimer := None\<rparr>, [stop, log]))
                 | _ \<Rightarrow> (False, m, [stop]))))"

text \<open>
  \<open>getCurrentTimerElapsed()\<close>: the milliseconds it computes (\<open>None\<close> when there is no
  timer and the method returns the constant string), and the hours, minutes and seconds
  it formats.
\<close>

definition getCurrentTimerElapsed_totalMs :: "int \<Rightarrow> TasksManager \<Rightarrow> int option" where
  "getCurrentTimerElapsed_totalMs now m =
     (case currentTimer m of
        None \<Rightarrow> None
      | Some t \<Rightarrow>
          (let totalMs = now - startTime t - totalPausedMs t
           in Some (case (isPaused t, pausedAt t) of
                      (True, Some p) \<Rightarrow> totalMs - (now - p)
                    | _ \<Rightarrow> totalMs)))"

definition getCurrentTimerElapsed :: "int \<Rightarrow> TasksManager \<Rightarrow> int \<times> int \<times> int" where
  "getCurrentTimerElapsed now m =
     (case getCurrentTimerElapsed_totalMs now m of
        None \<Rightarrow> (0, 0, 0)
      | Some totalMs \<Rightarrow>
          (let totalSeconds = js_floor_div totalMs 1000
           in (js_floor_div totalSeconds 3600,
               js_floor_div (js_rem totalSeconds 3600) 60,
               js_rem totalSeconds 60)))"


subsection \<open>status-bar.ts\<close>

text \<open>
  \<open>ZohoStatusBar\<close> without its \<open>statusBarItem\<close> (rendering only). \<open>sb_timer\<close> says whether
  the \<open>setInterval\<close> handle is set.
\<close>

record ZohoStatusBar =
  sb_timer :: bool
  sb_startTime :: "int option"
  sb_isRunning :: bool
  sb_isPaused :: bool
  sb_pausedDuration :: int
  sb_currentTask :: "ZohoTask option"
  sb_elapsedSeconds :: int

definition ZohoStatusBar_reset :: "ZohoStatusBar \<Rightarrow> ZohoStatusBar" where
  "ZohoStatusBar_reset sb =
     sb\<lparr>sb_timer := False, sb_startTime := None, sb_isRunning := False, sb_isPaused := False,
        sb_pausedDuration := 0, sb_elapsedSeconds := 0, sb_currentTask := None\<rparr>"

text \<open>
  \<open>start(task)\<close>: the second component says whether the warning "Ya hay un temporizador
  activo. Detengalo antes de iniciar uno nuevo." was shown.
\<close>

definition ZohoStatusBar_start :: "int \<Rightarrow> ZohoTask \<Rightarrow> ZohoStatusBar \<Rightarrow> ZohoStatusBar \<times> bool" where
  "ZohoStatusBar_start now task sb =
     (if sb_isRunning sb \<and> \<not> sb_isPaused sb then (sb, True)
      else
        (let sb1 =
           (if sb_isPaused sb then
              sb\<lparr>sb_isPaused := False,
                 sb_pausedDuration :=
                   (case sb_startTime sb of
                      Some st \<Rightarrow> sb_pausedDuration sb + js_floor_div (now - st) 1000
                    | None \<Rightarrow> sb_pausedDuration sb),
                 sb_startTime := Some now\<rparr>
            else (ZohoStatusBar_reset sb)\<lparr>sb_startTime := Some now, sb_currentTask := Some task\<rparr>)
         in (sb1\<lparr>sb_isRunning := True, sb_timer := True\<rparr>, False)))"

subsection \<open>JavaScript strings\<close>

text \<open>
  \<open>s.startsWith(p)\<close> is \<^term>\<open>prefix p s\<close>. \<open>s.includes(p)\<close>, and \<open>s.replace(p, r)\<close> for a string
  pattern \<open>p\<close>, which replaces the first occurrence only (the replacements used here
  contain no \<open>$\<close>, so they are inserted literally).
\<close>

fun js_includes :: "string \<Rightarrow> string \<Rightarrow> bool" where
  "js_includes [] p = (p = [])"
| "js_includes (c # cs) p = (prefix p (c # cs) \<or> js_includes cs p)"

fun js_replace :: "string \<Rightarrow> string \<Rightarrow> string \<Rightarrow> string" where
  "js_replace [] p r = (if p = [] then r else [])"
| "js_replace (c # cs) p r =
     (if prefix p (c # cs) then r @ drop (length p) (c # cs) else c # js_replace cs p r)"

text \<open>
  \<open>s.match(/[?&]name=([^&]+)/)\<close>, group 1: the leftmost position where \<open>?\<close> or \<open>&\<close> is
  followed by \<open>name=\<close> and at least one character other than \<open>&\<close>; the group is the
  longest run of such characters.
\<close>

fun match_param :: "string \<Rightarrow> string \<Rightarrow> string option" where
  "match_param name [] = None"
| "match_param name (c # cs) =
     (let v = takeWhile (\<lambda>x. x \<noteq> CHR ''&'') (drop (length name + 1) cs)
      in if (c = CHR ''?'' \<or> c = CHR ''&'') \<and> prefix (name @ ''='') cs \<and> v \<noteq> []
         then Some v else match_param name cs)"

subsection \<open>The custom-scheme draft: \<open>extractQueryParams\<close>\<close>

text \<open>
  The rewrite of the malformed forms inside \<open>extractQueryParams\<close> (the value of
  \<open>normalizedUriString\<close> for a given \<open>uriString\<close>): an \<open>if\<close>/\<open>else if\<close> chain, at most one
  rule fires.
\<close>

definition normalizedUriString :: "string \<Rightarrow> string" where
  "normalizedUriString uriString =
     (if prefix ''https://vscode//'' uriString then
        js_replace uriString ''https://vscode//'' ''vscode://''
      else if prefix ''http://vscode//'' uriString then
        js_replace uriString ''http://vscode//'' ''vscode://''
      else if js_includes uriString ''vscode:/zoho-projects'' then
        js_replace uriString ''vscode:/'' ''vscode://''
      else if js_includes uriString ''vscode:///'' then
        js_replace uriString ''vscode:///'' ''vscode://''
      else uriString)"

text \<open>
  A \<open>vscode.Uri\<close> as \<open>extractQueryParams\<close> sees it: the entries of
  \<open>new URLSearchParams(uri.query)\<close> and the result of \<open>uri.toString()\<close> (both computed by
  library code).
\<close>

record vscode_uri =
  uri_query :: "(string \<times> string) list"
  uri_toString :: string

definition extractQueryParams :: "vscode_uri \<Rightarrow> string option \<times> string option" where
  "extractQueryParams uri =
     (let code = map_of (uri_query uri) ''code'';
          state = map_of (uri_query uri) ''state''
      in if truthy code \<and> truthy state then (code, state)
         else
           (let n = normalizedUriString (uri_toString uri)
            in (match_param ''code'' n, match_param ''state'' n)))"

text \<open>The canonical redirect URI of the custom-scheme draft, up to the query.\<close>

definition canonical_prefix :: string where
  "canonical_prefix = ''vscode://zoho-projects-time-tracker/auth-callback?''"

subsection \<open>local-auth-server.ts\<close>

text \<open>
  What \<open>server.listen(port)\<close> leads to: the listening callback, an \<open>error\<close> event whose
  message contains \<open>EADDRINUSE\<close>, another \<open>error\<close> event, or (for a port outside
  \<open>0..65535\<close>) the \<open>RangeError\<close> that \<open>listen\<close> throws synchronously. The operating system's
  answer for each port is the parameter \<open>os\<close> of the functions below.
\<close>

datatype listen_result = Listening | EADDRINUSE | OtherListenError | BadPort

definition listen :: "(nat \<Rightarrow> listen_result) \<Rightarrow> nat \<Rightarrow> listen_result" where
  "listen os port = (if port \<ge> 65536 then BadPort else os port)"

text \<open>
  \<open>LocalAuthServer\<close>: \<open>server\<close> is \<open>None\<close> for \<open>null\<close>, and \<open>Some l\<close> for a server object that
  is listening (\<open>l\<close>) or not.
\<close>

record LocalAuthServer =
  server :: "bool option"
  port :: nat

datatype start_outcome = Resolved | Rejected listen_result

text \<open>\<open>start()\<close>: the outcome of the promise, the object afterwards, the ports it tried.\<close>

definition LocalAuthServer_start ::
  "(nat \<Rightarrow> listen_result) \<Rightarrow> LocalAuthServer \<Rightarrow> start_outcome \<times> LocalAuthServer \<times> nat list" where
  "LocalAuthServer_start os srv =
     (case server srv of
        Some _ \<Rightarrow> (Resolved, srv, [])
      | None \<Rightarrow>
          (case listen os (port srv) of
             Listening \<Rightarrow> (Resolved, srv\<lparr>server := Some True\<rparr>, [port srv])
           | e \<Rightarrow> (Rejected e, srv\<lparr>server := Some False\<rparr>, [port srv])))"

text \<open>\<open>stop()\<close>: the object afterwards and whether \<open>server.close\<close> was called.\<close>

definition LocalAuthServer_stop :: "LocalAuthServer \<Rightarrow> LocalAuthServer \<times> bool" where
  "LocalAuthServer_stop srv =
     (case server srv of None \<Rightarrow> (srv, False) | Some _ \<Rightarrow> (srv\<lparr>server := None\<rparr>, True))"

text \<open>
  A value of \<open>ParsedUrlQuery\<close> is a string or, for a key that occurs more than once in the
  query, the array of its values (so an array has at least two elements). An array is
  truthy, and its \<open>toString()\<close> joins the elements with commas.
\<close>

datatype qval = QStr string | QArr string string "string list"

fun join_comma :: "string list \<Rightarrow> string" where
  "join_comma [] = []"
| "join_comma [x] = x"
| "join_comma (x # y # ys) = x @ '','' @ join_comma (y # ys)"

definition qval_truthy :: "qval option \<Rightarrow> bool" where
  "qval_truthy v =
     (case v of None \<Rightarrow> False | Some (QStr s) \<Rightarrow> s \<noteq> [] | Some (QArr _ _ _) \<Rightarrow> True)"

fun qval_toString :: "qval \<Rightarrow> string" where
  "qval_toString (QStr s) = s"
| "qval_toString (QArr x y ys) = join_comma (x # y # ys)"

text \<open>
  An incoming request as the handlers see it: \<open>None\<close> when \<open>req.url\<close> is falsy, otherwise
  what \<open>url.parse(req.url, true)\<close> returns (library code): the path and the query object.
\<close>

record parsed_url =
  pathname :: string
  query :: "string \<rightharpoonup> qval"

datatype page = SuccessPage | MessagePage string

record http_response =
  status :: nat
  body :: page

datatype emitted = AuthCodeEvent string string | ErrorEvent

text \<open>
  \<open>handleRequest(req, res)\<close>: the response written and the event emitted on
  \<open>authCodeEmitter\<close>. \<open>url.parse("", true)\<close> has an empty query.
\<close>

definition handleRequest :: "parsed_url option \<Rightarrow> http_response \<times> emitted" where
  "handleRequest req =
     (let q = (case req of None \<Rightarrow> Map.empty | Some u \<Rightarrow> query u)
      in (\<lparr>status = 200, body = SuccessPage\<rparr>,
          case (q ''code'', q ''state'') of
            (Some code, Some state) \<Rightarrow>
              if qval_truthy (Some code) \<and> qval_truthy (Some state)
              then AuthCodeEvent (qval_toString code) (qval_toString state)
              else ErrorEvent
          | _ \<Rightarrow> ErrorEvent))"

text \<open>
  \<open>waitForAuthCode()\<close> subscribes once to \<open>authCode\<close> (resolve) and once to \<open>error\<close>
  (reject) and does nothing else: the promise is settled by the event of the first request
  that arrives after the call, and stays pending (\<open>None\<close>) when none arrives. \<open>reqs\<close> are
  the requests that arrive after the call, in order.
\<close>

definition waitForAuthCode :: "parsed_url option list \<Rightarrow> (http_response \<times> emitted) option" where
  "waitForAuthCode reqs = (case reqs of [] \<Rightarrow> None | r # _ \<Rightarrow> Some (handleRequest r))"

definition getRedirectUri_port :: "LocalAuthServer \<Rightarrow> nat" where
  "getRedirectUri_port srv = port srv"

subsection \<open>authentication.ts.new: the inline HTTP server\<close>

text \<open>
  The binding part of \<open>startLocalServer\<close>: \<open>listen\<close> on the static \<open>serverPort\<close>; the
  \<open>error\<close> handler increments \<open>serverPort\<close> and calls \<open>startLocalServer\<close> again when the
  message contains \<open>EADDRINUSE\<close>, and rejects otherwise. The result is the outcome (here
  \<open>Resolved\<close> stands for "listening", the promise itself is settled by the request
  handler), the value of \<open>serverPort\<close> afterwards, and the ports tried in order.
\<close>

function startLocalServer_listen ::
  "(nat \<Rightarrow> listen_result) \<Rightarrow> nat \<Rightarrow> start_outcome \<times> nat \<times> nat list" where
  "startLocalServer_listen os serverPort =
     (case listen os serverPort of
        Listening \<Rightarrow> (Resolved, serverPort, [serverPort])
      | EADDRINUSE \<Rightarrow>
          (case startLocalServer_listen os (serverPort + 1) of
             (r, p, tried) \<Rightarrow> (r, p, serverPort # tried))
      | e \<Rightarrow> (Rejected e, serverPort, [serverPort]))"
  by pat_completeness auto
termination
  by (relation "measure (\<lambda>(os, serverPort). 65536 - serverPort)")
     (auto simp: listen_def split: if_splits)

declare startLocalServer_listen.simps [simp del]

text \<open>
  The request callback of \<open>startLocalServer\<close> up to the point where the token exchange
  begins: the response written, and what happens to the login promise and the server.
\<close>

datatype handler_step = Ignored | RejectAndStop | ProceedToExchange string

definition startLocalServer_handler :: "string \<Rightarrow> parsed_url option \<Rightarrow> http_response \<times> handler_step" where
  "startLocalServer_handler state req =
     (case req of
        None \<Rightarrow> (\<lparr>status = 400, body = MessagePage ''URL no valida''\<rparr>, Ignored)
      | Some u \<Rightarrow>
          if pathname u \<noteq> ''/auth-callback'' then
            (\<lparr>status = 404, body = MessagePage ''Pagina no encontrada''\<rparr>, Ignored)
          else if query u ''state'' \<noteq> Some (QStr state) then
            (\<lparr>status = 400, body = MessagePage ''Estado no valido. Intente nuevamente.''\<rparr>,
             RejectAndStop)
          else
            (case query u ''code'' of
               Some code \<Rightarrow>
                 if qval_truthy (Some code) then
                   (\<lparr>status = 200, body = MessagePage ''Autenticacion exitosa''\<rparr>,
                    ProceedToExchange (qval_toString code))
                 else
                   (\<lparr>status = 400, body = MessagePage ''No se recibio codigo de autorizacion''\<rparr>,
                    RejectAndStop)
             | None \<Rightarrow>
                 (\<lparr>status = 400, body = MessagePage ''No se recibio codigo de autorizacion''\<rparr>,
                  RejectAndStop)))"

subsection \<open>\<open>ZohoAuthenticationProvider\<close>: state, environment, effects\<close>

text \<open>\<open>vscode.AuthenticationSession\<close> as the drafts build it.\<close>

record session =
  accessToken :: string
  account_id :: string
  account_label :: string
  scopes :: "string list"

text \<open>
  The closure that the custom-scheme draft registers as URI handler: the variables it
  captured. Together with the timer armed beside it, it is the pending login request.
\<close>

record uri_handler =
  h_state :: string
  h_clientId :: string
  h_clientSecret :: string
  h_apiDomain :: string

text \<open>
  The provider object: the fields of the loopback draft (\<open>localAuthServer\<close>,
  \<open>isAuthenticating\<close>), the static field of the custom-scheme draft
  (\<open>uriHandlerRegistration\<close>), the session both keep, and the two stores of the extension
  context they write, \<open>context.secrets\<close> and \<open>context.globalState\<close>. Each draft reads and
  writes only its own fields.
\<close>

record ZohoAuthenticationProvider =
  localAuthServer :: "LocalAuthServer option"
  isAuthenticating :: bool
  uriHandlerRegistration :: "uri_handler option"
  authenticationSession :: "session option"
  secrets :: "string \<rightharpoonup> string"
  globalState :: "string \<rightharpoonup> string"

text \<open>The messages shown to the user, one constructor per message text of the source.\<close>

datatype message =
    MsgAlreadyInProgress      \<comment> \<open>"Ya hay un proceso de autenticacion en curso. ..."\<close>
  | MsgNeedCredentials        \<comment> \<open>"Necesitas configurar el Client ID y Client Secret ..."\<close>
  | MsgCurrentSettings        \<comment> \<open>"Configuracion actual: ..."\<close>
  | MsgBrowserOpened          \<comment> \<open>"Se ha abierto una ventana del navegador ..."\<close>
  | MsgBrowserError           \<comment> \<open>"Error al abrir el navegador: ..."\<close>
  | MsgStateMismatch          \<comment> \<open>"Error de seguridad: El estado de la solicitud no coincide"\<close>
  | MsgNoCode                 \<comment> \<open>"Error de autenticacion: No se recibio el codigo de autorizacion"\<close>
  | MsgProcessing             \<comment> \<open>"Autenticacion en progreso. Procesando credenciales..."\<close>
  | MsgRedirectUriError       \<comment> \<open>"Error en la redireccion de OAuth: ..."\<close>
  | MsgProcessError           \<comment> \<open>"Error al procesar la autenticacion: ..."\<close>
  | MsgLoggedIn string        \<comment> \<open>"Se ha iniciado sesion en Zoho Projects como ..."\<close>
  | MsgAuthProcessError       \<comment> \<open>"Error en el proceso de autenticacion: ..."\<close>
  | MsgAuthError              \<comment> \<open>"Error de autenticacion: ..." (the outermost \<open>catch\<close>)\<close>
  | MsgExpired                \<comment> \<open>"La autenticacion ha expirado. Por favor, intentalo de nuevo."\<close>

text \<open>The redirect URI of a draft.\<close>

datatype redirect_uri =
    LocalhostCallback nat     \<comment> \<open>\<open>http://localhost:<port>/auth-callback\<close>\<close>
  | VscodeCallback            \<comment> \<open>\<open>vscode://zoho-projects-time-tracker/auth-callback\<close>\<close>

text \<open>
  The external actions of a login attempt. \<open>OpenExternal\<close> carries the \<open>client_id\<close>, the
  \<open>redirect_uri\<close> and the \<open>state\<close> of the authorization URL (its other parameters are
  constants); \<open>TokenPost\<close> the \<open>client_id\<close>, \<open>client_secret\<close>, \<open>code\<close> and \<open>redirect_uri\<close> of
  the exchange; \<open>PortalGet\<close> the API domain and the bearer token.
\<close>

datatype effect =
    ShowInformationMessage message
  | ShowErrorMessage message
  | ShowWarningMessage message
  | ExecuteCommand string
  | ServerListen nat
  | ServerClose
  | HttpRespond http_response
  | OpenExternal string redirect_uri string
  | OpenExternalFile
  | TokenPost string string string redirect_uri
  | PortalGet string string
  | SetTimeout nat
  | ClearTimeout
  | RegisterUriHandler
  | DisposeUriHandler

datatype dialog_choice = ConfigureNow | ShowSettings | Dismissed

text \<open>
  What the collaborators answer during one login attempt: the configuration values, the
  user's choice in the missing-credentials dialog, the value of \<open>uuidv4()\<close>, the operating
  system's answer to \<open>listen\<close>, whether \<open>openExternal\<close> throws, the HTTP requests that reach
  the loopback server after \<open>waitForAuthCode\<close> was called, the URI delivered to the URI
  handler with its arrival time in milliseconds after the handler was set up (\<open>None\<close>:
  none is ever delivered), the token endpoint's answer (\<open>Inl\<close> the message of the error
  thrown by \<open>axios.post\<close>, \<open>Inr\<close> the \<open>access_token\<close> and \<open>refresh_token\<close> of the response),
  the portal endpoint's answer (\<open>Inl\<close> the message of the error thrown by \<open>axios.get\<close>,
  \<open>Inr\<close> the \<open>user_id\<close> and \<open>name\<close> of the response), and whether the user clicks "Ver instrucciones" in the redirect-URI error
  dialog. Writes to the secret store are taken to succeed.
\<close>

record login_env =
  cfg_clientId :: "string option"
  cfg_clientSecret :: "string option"
  cfg_apiDomain :: "string option"
  dialog_response :: dialog_choice
  uuid :: string
  os_listen :: "nat \<Rightarrow> listen_result"
  openExternal_throws :: bool
  requests :: "parsed_url option list"
  uri_delivery :: "(nat \<times> vscode_uri) option"
  token_response :: "string + string \<times> string"
  portal_response :: "string + string option \<times> string option"
  open_docs :: bool

text \<open>What a call of \<open>login()\<close> comes to: a returned value, or a promise that never settles.\<close>

datatype login_return = Returned "session option" | NeverReturns

definition SCOPES :: "string list" where
  "SCOPES = [''ZohoProjects.portals.READ'', ''ZohoProjects.projects.READ'',
     ''ZohoProjects.tasks.READ'', ''ZohoProjects.tasks.CREATE'',
     ''ZohoProjects.timesheets.READ'', ''ZohoProjects.timesheets.CREATE'',
     ''ZohoProjects.timesheets.UPDATE'', ''ZohoProjects.timesheets.DELETE'']"

definition apiDomain_of :: "login_env \<Rightarrow> string" where
  "apiDomain_of env = or_default (cfg_apiDomain env) ''https://projectsapi.zoho.com''"

text \<open>The missing-credentials dialog, the same in both drafts.\<close>

definition credentials_dialog :: "login_env \<Rightarrow> effect list" where
  "credentials_dialog env =
     ShowErrorMessage MsgNeedCredentials #
     (case dialog_response env of
        ConfigureNow \<Rightarrow> [ExecuteCommand ''workbench.action.openSettings'']
      | ShowSettings \<Rightarrow> [ShowInformationMessage MsgCurrentSettings]
      | Dismissed \<Rightarrow> [])"

text \<open>
  Storing the tokens, building the session and storing the metadata, the same in both
  drafts (from "Guardar tokens en secrets" to "Almacenar metadatos importantes").
\<close>

definition store_tokens ::
  "string \<Rightarrow> string \<Rightarrow> ZohoAuthenticationProvider \<Rightarrow> ZohoAuthenticationProvider" where
  "store_tokens access refresh p =
     p\<lparr>secrets := (secrets p)(''zoho-access-token'' \<mapsto> access, ''zoho-refresh-token'' \<mapsto> refresh)\<rparr>"

definition make_session :: "string \<Rightarrow> string option \<times> string option \<Rightarrow> session" where
  "make_session access user =
     \<lparr>accessToken = access,
      account_id = or_default (fst user) ''unknown'',
      account_label = or_default (snd user) ''Zoho Account'',
      scopes = SCOPES\<rparr>"

definition store_session :: "session \<Rightarrow> ZohoAuthenticationProvider \<Rightarrow> ZohoAuthenticationProvider" where
  "store_session ses p =
     p\<lparr>authenticationSession := Some ses,
       globalState := (globalState p)(''zoho-user-id'' \<mapsto> account_id ses,
                                      ''zoho-account-name'' \<mapsto> account_label ses)\<rparr>"

subsection \<open>\<open>login()\<close> of the loopback draft (with \<open>LocalAuthServer\<close>)\<close>

definition cleanupLocalServer ::
  "ZohoAuthenticationProvider \<Rightarrow> ZohoAuthenticationProvider \<times> effect list" where
  "cleanupLocalServer p =
     (case localAuthServer p of
        None \<Rightarrow> (p, [])
      | Some srv \<Rightarrow>
          (p\<lparr>localAuthServer := None\<rparr>,
           if snd (LocalAuthServer_stop srv) then [ServerClose] else []))"

text \<open>
  Every failing exit after the server was started: show the message, clean up, clear the
  flag, return \<open>undefined\<close>.
\<close>

definition local_fail ::
  "message \<Rightarrow> ZohoAuthenticationProvider \<Rightarrow> login_return \<times> ZohoAuthenticationProvider \<times> effect list" where
  "local_fail msg p =
     (case cleanupLocalServer p of
        (p', eff) \<Rightarrow> (Returned None, p'\<lparr>isAuthenticating := False\<rparr>, ShowErrorMessage msg # eff))"

definition local_exchange_message :: "string \<Rightarrow> message" where
  "local_exchange_message errorMessage =
     (if js_includes errorMessage ''redirect_uri'' \<or> js_includes errorMessage ''redirect uri''
      then MsgRedirectUriError else MsgProcessError)"

text \<open>The innermost \<open>try\<close> block: the token exchange and what follows it.\<close>

definition login_local_exchange ::
  "login_env \<Rightarrow> string \<Rightarrow> string \<Rightarrow> string \<Rightarrow> redirect_uri \<Rightarrow> ZohoAuthenticationProvider
     \<Rightarrow> login_return \<times> ZohoAuthenticationProvider \<times> effect list" where
  "login_local_exchange env clientId clientSecret code callbackUri p =
     (let post = TokenPost clientId clientSecret code callbackUri
      in case token_response env of
           Inl errorMessage \<Rightarrow>
             (case local_fail (local_exchange_message errorMessage) p of
                (r, p', eff) \<Rightarrow> (r, p', post # eff))
         | Inr (access, refresh) \<Rightarrow>
             (let p1 = store_tokens access refresh p;
                  get = PortalGet (apiDomain_of env) access
              in case portal_response env of
                   Inl errorMessage \<Rightarrow>
                     (case local_fail (local_exchange_message errorMessage) p1 of
                        (r, p', eff) \<Rightarrow> (r, p', post # get # eff))
                 | Inr user \<Rightarrow>
                     (let ses = make_session access user;
                          p2 = store_session ses p1
                      in case cleanupLocalServer p2 of
                           (p3, eff) \<Rightarrow>
                             (Returned (Some ses), p3\<lparr>isAuthenticating := False\<rparr>,
                              post # get #
                              ShowInformationMessage (MsgLoggedIn (account_label ses)) # eff))))"

text \<open>The \<open>try\<close> block that awaits the listener: from \<open>waitForAuthCode\<close> on.\<close>

definition login_local_wait ::
  "login_env \<Rightarrow> string \<Rightarrow> string \<Rightarrow> string \<Rightarrow> redirect_uri \<Rightarrow> ZohoAuthenticationProvider
     \<Rightarrow> login_return \<times> ZohoAuthenticationProvider \<times> effect list" where
  "login_local_wait env state clientId clientSecret callbackUri p =
     (case waitForAuthCode (requests env) of
        None \<Rightarrow> (NeverReturns, p, [])
      | Some (resp, ErrorEvent) \<Rightarrow>
          (case local_fail MsgAuthProcessError p of
             (r, p', eff) \<Rightarrow> (r, p', HttpRespond resp # eff))
      | Some (resp, AuthCodeEvent code returnedState) \<Rightarrow>
          (case (if returnedState \<noteq> state then local_fail MsgStateMismatch p
                 else if code = [] then local_fail MsgNoCode p
                 else
                   (case login_local_exchange env clientId clientSecret code callbackUri p of
                      (r, p', eff) \<Rightarrow> (r, p', ShowInformationMessage MsgProcessing # eff))) of
             (r, p', eff) \<Rightarrow> (r, p', HttpRespond resp # eff)))"

definition login_local ::
  "login_env \<Rightarrow> ZohoAuthenticationProvider
     \<Rightarrow> login_return \<times> ZohoAuthenticationProvider \<times> effect list" where
  "login_local env p =
     (if isAuthenticating p then
        (Returned None, p, [ShowInformationMessage MsgAlreadyInProgress])
      else
        (let p1 = p\<lparr>isAuthenticating := True\<rparr>
         in if \<not> truthy (cfg_clientId env) \<or> \<not> truthy (cfg_clientSecret env) then
              (Returned None, p1\<lparr>isAuthenticating := False\<rparr>, credentials_dialog env)
            else
              (let clientId = or_default (cfg_clientId env) [];
                   clientSecret = or_default (cfg_clientSecret env) [];
                   state = uuid env
               in case LocalAuthServer_start (os_listen env) \<lparr>server = None, port = 3000\<rparr> of
                    (started, srv, ports) \<Rightarrow>
                      (let p2 = p1\<lparr>localAuthServer := Some srv\<rparr>;
                           listens = map ServerListen ports
                       in case started of
                            Rejected e \<Rightarrow>
                              (Returned None, p2\<lparr>isAuthenticating := False\<rparr>,
                               listens @ [ShowErrorMessage MsgAuthError])
                          | Resolved \<Rightarrow>
                              (let callbackUri = LocalhostCallback (getRedirectUri_port srv);
                                   opening = OpenExternal clientId callbackUri state
                               in if openExternal_throws env then
                                    (case local_fail MsgBrowserError p2 of
                                       (r, p', eff) \<Rightarrow> (r, p', listens @ opening # eff))
                                  else
                                    (case login_local_wait env state clientId clientSecret
                                            callbackUri p2 of
                                       (r, p', eff) \<Rightarrow>
                                         (r, p',
                                          listens @ opening #
                                          ShowInformationMessage MsgBrowserOpened # eff)))))))"

subsection \<open>\<open>login()\<close> of the custom-scheme draft (URI handler)\<close>

definition LOGIN_TIMEOUT_MS :: nat where
  "LOGIN_TIMEOUT_MS = 10 * 60 * 1000"

definition clearUriHandler ::
  "ZohoAuthenticationProvider \<Rightarrow> ZohoAuthenticationProvider \<times> effect list" where
  "clearUriHandler p =
     (case uriHandlerRegistration p of
        None \<Rightarrow> (p, [])
      | Some _ \<Rightarrow> (p\<lparr>uriHandlerRegistration := None\<rparr>, [DisposeUriHandler]))"

text \<open>
  The synchronous part of \<open>setupUriHandler\<close>: clear a previous handler, arm the timer,
  register the handler.
\<close>

definition setupUriHandler ::
  "uri_handler \<Rightarrow> ZohoAuthenticationProvider \<Rightarrow> ZohoAuthenticationProvider \<times> effect list" where
  "setupUriHandler h p =
     (case clearUriHandler p of
        (p', eff) \<Rightarrow>
          (p'\<lparr>uriHandlerRegistration := Some h\<rparr>,
           eff @ [SetTimeout LOGIN_TIMEOUT_MS, RegisterUriHandler]))"

text \<open>Every rejecting exit of \<open>handleUri\<close>: show the messages, clear the handler, reject.\<close>

definition uri_reject ::
  "effect list \<Rightarrow> ZohoAuthenticationProvider
     \<Rightarrow> session option \<times> ZohoAuthenticationProvider \<times> effect list" where
  "uri_reject shown p = (case clearUriHandler p of (p', eff) \<Rightarrow> (None, p', shown @ eff))"

definition uri_exchange_failed ::
  "login_env \<Rightarrow> string \<Rightarrow> ZohoAuthenticationProvider
     \<Rightarrow> session option \<times> ZohoAuthenticationProvider \<times> effect list" where
  "uri_exchange_failed env errorMessage p =
     (if js_includes errorMessage ''redirect_uri'' \<or> js_includes errorMessage ''redirect uri''
         \<or> js_includes errorMessage ''redireccionamiento''
      then uri_reject (ShowErrorMessage MsgRedirectUriError #
                       (if open_docs env then [OpenExternalFile] else [])) p
      else uri_reject [ShowErrorMessage MsgProcessError] p)"

text \<open>
  \<open>handleUri\<close>, the registered callback: \<open>Some\<close> session when it resolves the login
  promise, \<open>None\<close> when it rejects it.
\<close>

definition handleUri ::
  "login_env \<Rightarrow> uri_handler \<Rightarrow> vscode_uri \<Rightarrow> ZohoAuthenticationProvider
     \<Rightarrow> session option \<times> ZohoAuthenticationProvider \<times> effect list" where
  "handleUri env h uri p =
     (case (case extractQueryParams uri of
              (code, returnedState) \<Rightarrow>
                if returnedState \<noteq> Some (h_state h) then
                  uri_reject [ShowErrorMessage MsgStateMismatch] p
                else if \<not> truthy code then
                  uri_reject [ShowErrorMessage MsgNoCode] p
                else
                  (let post = TokenPost (h_clientId h) (h_clientSecret h) (or_default code [])
                                VscodeCallback
                   in case (case token_response env of
                              Inl errorMessage \<Rightarrow> uri_exchange_failed env errorMessage p
                            | Inr (access, refresh) \<Rightarrow>
                                (let p1 = store_tokens access refresh p
                                 in case (case portal_response env of
                                            Inl errorMessage \<Rightarrow>
                                              uri_exchange_failed env errorMessage p1
                                          | Inr user \<Rightarrow>
                                              (let ses = make_session access user;
                                                   p2 = store_session ses p1
                                               in case clearUriHandler p2 of
                                                    (p3, eff) \<Rightarrow>
                                                      (Some ses, p3,
                                                       ShowInformationMessage
                                                         (MsgLoggedIn (account_label ses)) # eff))) of
                                      (r, p', eff) \<Rightarrow>
                                        (r, p', PortalGet (h_apiDomain h) access # eff))) of
                        (r, p', eff) \<Rightarrow>
                          (r, p', ShowInformationMessage MsgProcessing # post # eff))) of
        (r, p', eff) \<Rightarrow> (r, p', ClearTimeout # eff))"

text \<open>
  The \<open>catch\<close> of \<open>login()\<close>, reached when the login promise rejects: clear the handler,
  show the error, return \<open>undefined\<close>.
\<close>

definition login_uri_catch ::
  "ZohoAuthenticationProvider \<Rightarrow> login_return \<times> ZohoAuthenticationProvider \<times> effect list" where
  "login_uri_catch p =
     (case clearUriHandler p of
        (p', eff) \<Rightarrow> (Returned None, p', eff @ [ShowErrorMessage MsgAuthError]))"

text \<open>
  Awaiting the login promise. The timer fires \<open>LOGIN_TIMEOUT_MS\<close> after the handler was set
  up unless a URI was delivered before; a URI delivered later finds no handler.
\<close>

definition login_uri_await ::
  "login_env \<Rightarrow> uri_handler \<Rightarrow> ZohoAuthenticationProvider
     \<Rightarrow> login_return \<times> ZohoAuthenticationProvider \<times> effect list" where
  "login_uri_await env h p =
     (let timed_out =
            (case clearUriHandler p of
               (p1, eff1) \<Rightarrow>
                 (case login_uri_catch p1 of
                    (r, p2, eff2) \<Rightarrow> (r, p2, ShowWarningMessage MsgExpired # eff1 @ eff2)))
      in case uri_delivery env of
           None \<Rightarrow> timed_out
         | Some (t, uri) \<Rightarrow>
             if t < LOGIN_TIMEOUT_MS then
               (case handleUri env h uri p of
                  (Some ses, p1, eff1) \<Rightarrow> (Returned (Some ses), p1, eff1)
                | (None, p1, eff1) \<Rightarrow>
                    (case login_uri_catch p1 of (r, p2, eff2) \<Rightarrow> (r, p2, eff1 @ eff2)))
             else timed_out)"

definition login_uri ::
  "login_env \<Rightarrow> ZohoAuthenticationProvider
     \<Rightarrow> login_return \<times> ZohoAuthenticationProvider \<times> effect list" where
  "login_uri env p =
     (if uriHandlerRegistration p \<noteq> None then
        (Returned None, p, [ShowInformationMessage MsgAlreadyInProgress])
      else if \<not> truthy (cfg_clientId env) \<or> \<not> truthy (cfg_clientSecret env) then
        (Returned None, p, credentials_dialog env)
      else
        (let clientId = or_default (cfg_clientId env) [];
             clientSecret = or_default (cfg_clientSecret env) [];
             state = uuid env;
             h = \<lparr>h_state = state, h_clientId = clientId, h_clientSecret = clientSecret,
                  h_apiDomain = apiDomain_of env\<rparr>
         in case setupUriHandler h p of
              (p1, eff1) \<Rightarrow>
                (let opening = OpenExternal clientId VscodeCallback state
                 in if openExternal_throws env then
                      (case clearUriHandler p1 of
                         (p2, eff2) \<Rightarrow>
                           (Returned None, p2,
                            eff1 @ opening # ShowErrorMessage MsgBrowserError # eff2))
                    else
                      (case login_uri_await env h p1 of
                         (r, p2, eff2) \<Rightarrow>
                           (r, p2,
                            eff1 @ opening # ShowInformationMessage MsgBrowserOpened # eff2)))))"

subsection \<open>The custom-scheme draft as events\<close>

text \<open>
  \<open>login_uri\<close> above follows one call of \<open>login()\<close> from start to end. Between the
  registration of the handler and the settling of the login promise the extension host
  runs other events: further calls of \<open>login()\<close>, timers firing, URIs arriving. The
  functions below are the same code cut at its suspension points. The runtime state is
  the provider, the timers armed by \<open>setTimeout\<close> and not cleared (each belongs to the
  login promise of one attempt, named by the attempt's state token, and fires at the
  given time), and the attempts whose \<open>login()\<close> is suspended at \<open>await authPromise\<close>.
\<close>

record uri_runtime =
  rt_provider :: ZohoAuthenticationProvider
  rt_timers :: "(string \<times> nat) list"
  rt_awaiting :: "string list"

datatype login_progress = Done "session option" | AwaitingRedirect

text \<open>
  A call of \<open>login()\<close> at time \<open>now\<close>, up to its return or its suspension at
  \<open>await authPromise\<close>. When \<open>openExternal\<close> throws, the \<open>catch\<close> calls \<open>clearUriHandler\<close> and
  returns; it does not call \<open>clearTimeout\<close>, so the timer stays armed.
\<close>

definition login_uri_call ::
  "nat \<Rightarrow> login_env \<Rightarrow> uri_runtime \<Rightarrow> login_progress \<times> uri_runtime \<times> effect list" where
  "login_uri_call now env w =
     (if uriHandlerRegistration (rt_provider w) \<noteq> None then
        (Done None, w, [ShowInformationMessage MsgAlreadyInProgress])
      else if \<not> truthy (cfg_clientId env) \<or> \<not> truthy (cfg_clientSecret env) then
        (Done None, w, credentials_dialog env)
      else
        (let clientId = or_default (cfg_clientId env) [];
             clientSecret = or_default (cfg_clientSecret env) [];
             state = uuid env;
             h = \<lparr>h_state = state, h_clientId = clientId, h_clientSecret = clientSecret,
                  h_apiDomain = apiDomain_of env\<rparr>
         in case setupUriHandler h (rt_provider w) of
              (p1, eff1) \<Rightarrow>
                (let w1 = w\<lparr>rt_provider := p1,
                            rt_timers := rt_timers w @ [(state, now + LOGIN_TIMEOUT_MS)]\<rparr>;
                     opening = OpenExternal clientId VscodeCallback state
                 in if openExternal_throws env then
                      (case clearUriHandler p1 of
                         (p2, eff2) \<Rightarrow>
                           (Done None, w1\<lparr>rt_provider := p2\<rparr>,
                            eff1 @ opening # ShowErrorMessage MsgBrowserError # eff2))
                    else
                      (AwaitingRedirect, w1\<lparr>rt_awaiting := rt_awaiting w1 @ [state]\<rparr>,
                       eff1 @ [opening, ShowInformationMessage MsgBrowserOpened]))))"

text \<open>
  The timer of attempt \<open>a\<close> firing at time \<open>now\<close> (nothing happens unless it is armed and
  due): the warning, \<open>clearUriHandler()\<close> on the static registration, whichever attempt
  registered it, and \<open>reject\<close>. If \<open>login()\<close> of attempt \<open>a\<close> is awaiting the promise, its
  \<open>catch\<close> runs and it returns \<open>undefined\<close>; otherwise nobody handles the rejection.
\<close>

definition timer_fires :: "nat \<Rightarrow> string \<Rightarrow> uri_runtime \<Rightarrow> uri_runtime \<times> effect list" where
  "timer_fires now a w =
     (case map_of (rt_timers w) a of
        None \<Rightarrow> (w, [])
      | Some due \<Rightarrow>
          if now < due then (w, [])
          else
            (let timers = filter (\<lambda>(x, _). x \<noteq> a) (rt_timers w)
             in case clearUriHandler (rt_provider w) of
                  (p1, eff1) \<Rightarrow>
                    if a \<in> set (rt_awaiting w) then
                      (case login_uri_catch p1 of
                         (_, p2, eff2) \<Rightarrow>
                           (w\<lparr>rt_provider := p2, rt_timers := timers,
                              rt_awaiting := filter (\<lambda>x. x \<noteq> a) (rt_awaiting w)\<rparr>,
                            ShowWarningMessage MsgExpired # eff1 @ eff2))
                    else
                      (w\<lparr>rt_provider := p1, rt_timers := timers\<rparr>,
                       ShowWarningMessage MsgExpired # eff1)))"

text \<open>
  A URI delivered by the editor: it reaches the registered handler, if there is one.
  \<open>handleUri\<close> first clears the timer of its own attempt, then settles that attempt's
  promise, and the awaiting \<open>login()\<close> returns the session or runs its \<open>catch\<close>. The first
  component is what that \<open>login()\<close> returns (\<open>None\<close>: no \<open>login()\<close> returned).
\<close>

definition uri_delivered ::
  "login_env \<Rightarrow> vscode_uri \<Rightarrow> uri_runtime
     \<Rightarrow> session option option \<times> uri_runtime \<times> effect list" where
  "uri_delivered env uri w =
     (case uriHandlerRegistration (rt_provider w) of
        None \<Rightarrow> (None, w, [])
      | Some h \<Rightarrow>
          (let a = h_state h;
               timers = filter (\<lambda>(x, _). x \<noteq> a) (rt_timers w);
               awaiting = filter (\<lambda>x. x \<noteq> a) (rt_awaiting w)
           in case handleUri env h uri (rt_provider w) of
                (Some ses, p1, eff1) \<Rightarrow>
                  (if a \<in> set (rt_awaiting w) then Some (Some ses) else None,
                   w\<lparr>rt_provider := p1, rt_timers := timers, rt_awaiting := awaiting\<rparr>, eff1)
              | (None, p1, eff1) \<Rightarrow>
                  if a \<in> set (rt_awaiting w) then
                    (case login_uri_catch p1 of
                       (_, p2, eff2) \<Rightarrow>
                         (Some None,
                          w\<lparr>rt_provider := p2, rt_timers := timers, rt_awaiting := awaiting\<rparr>,
                          eff1 @ eff2))
                  else
                    (None, w\<lparr>rt_provider := p1, rt_timers := timers\<rparr>, eff1)))"

subsection \<open>\<open>login()\<close> of authentication.ts.new\<close>

text \<open>
  The two static fields of this draft: \<open>server\<close> (\<open>None\<close> for \<open>null\<close>, \<open>Some l\<close> for a server
  object that is listening or not) and \<open>serverPort\<close>. The session and the stores are those
  of the provider record.
\<close>

record new_static =
  static_server :: "bool option"
  static_serverPort :: nat

definition stopLocalServer :: "new_static \<Rightarrow> new_static \<times> effect list" where
  "stopLocalServer st =
     (case static_server st of
        None \<Rightarrow> (st, [])
      | Some _ \<Rightarrow> (st\<lparr>static_server := None\<rparr>, [ServerClose]))"

text \<open>
  The external actions of the binding part for the ports tried: every retry begins with
  \<open>stopLocalServer()\<close>, which closes the server object whose bind failed.
\<close>

fun listen_effects :: "nat list \<Rightarrow> effect list" where
  "listen_effects [] = []"
| "listen_effects [p] = [ServerListen p]"
| "listen_effects (p # q # ps) = ServerListen p # ServerClose # listen_effects (q # ps)"

datatype new_settle = NoSettle | Rejects | Resolves session

text \<open>
  The request callback from the token exchange on, for a request that passed the checks
  of \<open>startLocalServer_handler\<close>. The redirect URI of the exchange is built from the
  current \<open>serverPort\<close>.
\<close>

definition new_exchange ::
  "login_env \<Rightarrow> string \<Rightarrow> string \<Rightarrow> string \<Rightarrow> new_static \<times> ZohoAuthenticationProvider
     \<Rightarrow> new_settle \<times> (new_static \<times> ZohoAuthenticationProvider) \<times> effect list" where
  "new_exchange env clientId clientSecret code s =
     (case s of
        (st, p) \<Rightarrow>
          (let post = TokenPost clientId clientSecret code
                        (LocalhostCallback (static_serverPort st))
           in case token_response env of
                Inl _ \<Rightarrow>
                  (case stopLocalServer st of (st', eff) \<Rightarrow> (Rejects, (st', p), post # eff))
              | Inr (access, refresh) \<Rightarrow>
                  (let p1 = store_tokens access refresh p;
                       get = PortalGet (apiDomain_of env) access
                   in case portal_response env of
                        Inl _ \<Rightarrow>
                          (case stopLocalServer st of
                             (st', eff) \<Rightarrow> (Rejects, (st', p1), post # get # eff))
                      | Inr user \<Rightarrow>
                          (let ses = make_session access user;
                               p2 = store_session ses p1
                           in case stopLocalServer st of
                                (st', eff) \<Rightarrow>
                                  (Resolves ses, (st', p2),
                                   post # get #
                                   ShowInformationMessage (MsgLoggedIn (account_label ses)) #
                                   eff)))))"

text \<open>
  The server handling the requests that arrive, in order, until one of them settles the
  login promise (after which the server is stopped).
\<close>

fun new_serve ::
  "login_env \<Rightarrow> string \<Rightarrow> string \<Rightarrow> string \<Rightarrow> parsed_url option list
     \<Rightarrow> new_static \<times> ZohoAuthenticationProvider
     \<Rightarrow> new_settle \<times> (new_static \<times> ZohoAuthenticationProvider) \<times> effect list" where
  "new_serve env state clientId clientSecret [] s = (NoSettle, s, [])"
| "new_serve env state clientId clientSecret (req # reqs) s =
     (case startLocalServer_handler state req of
        (resp, Ignored) \<Rightarrow>
          (case new_serve env state clientId clientSecret reqs s of
             (r, s', eff) \<Rightarrow> (r, s', HttpRespond resp # eff))
      | (resp, RejectAndStop) \<Rightarrow>
          (case stopLocalServer (fst s) of
             (st', eff) \<Rightarrow> (Rejects, (st', snd s), HttpRespond resp # eff))
      | (resp, ProceedToExchange code) \<Rightarrow>
          (case new_exchange env clientId clientSecret code s of
             (r, s', eff) \<Rightarrow> (r, s', HttpRespond resp # eff)))"

text \<open>
  The \<open>catch\<close> of this draft's \<open>login()\<close>: stop the server, show the error, return
  \<open>undefined\<close>.
\<close>

definition login_new_catch ::
  "new_static \<times> ZohoAuthenticationProvider
     \<Rightarrow> login_return \<times> (new_static \<times> ZohoAuthenticationProvider) \<times> effect list" where
  "login_new_catch s =
     (case stopLocalServer (fst s) of
        (st', eff) \<Rightarrow> (Returned None, (st', snd s), eff @ [ShowErrorMessage MsgAuthError]))"

text \<open>
  \<open>login()\<close>. The authorization URL is built, with the port \<open>serverPort\<close> has at that
  moment, before the server is started; the browser is opened only after
  \<open>startLocalServer\<close> has resolved, that is after a request completed the exchange.
\<close>

definition login_new ::
  "login_env \<Rightarrow> new_static \<times> ZohoAuthenticationProvider
     \<Rightarrow> login_return \<times> (new_static \<times> ZohoAuthenticationProvider) \<times> effect list" where
  "login_new env s =
     (case s of
        (st, p) \<Rightarrow>
          if static_server st \<noteq> None then
            (Returned None, s, [ShowInformationMessage MsgAlreadyInProgress])
          else if \<not> truthy (cfg_clientId env) \<or> \<not> truthy (cfg_clientSecret env) then
            (Returned None, s,
             ShowErrorMessage MsgNeedCredentials #
             (if dialog_response env = ConfigureNow
              then [ExecuteCommand ''workbench.action.openSettings''] else []))
          else
            (let clientId = or_default (cfg_clientId env) [];
                 clientSecret = or_default (cfg_clientSecret env) [];
                 state = uuid env;
                 opening = OpenExternal clientId (LocalhostCallback (static_serverPort st)) state
             in case startLocalServer_listen (os_listen env) (static_serverPort st) of
                  (Rejected e, port', tried) \<Rightarrow>
                    (case login_new_catch
                            (st\<lparr>static_server := Some False, static_serverPort := port'\<rparr>, p) of
                       (r, s', eff) \<Rightarrow> (r, s', listen_effects tried @ eff))
                | (Resolved, port', tried) \<Rightarrow>
                    (case new_serve env state clientId clientSecret (requests env)
                            (st\<lparr>static_server := Some True, static_serverPort := port'\<rparr>, p) of
                       (NoSettle, s1, eff1) \<Rightarrow> (NeverReturns, s1, listen_effects tried @ eff1)
                     | (Rejects, s1, eff1) \<Rightarrow>
                         (case login_new_catch s1 of
                            (r, s2, eff2) \<Rightarrow> (r, s2, listen_effects tried @ eff1 @ eff2))
                     | (Resolves ses, s1, eff1) \<Rightarrow>
                         if openExternal_throws env then
                           (case login_new_catch s1 of
                              (r, s2, eff2) \<Rightarrow>
                                (r, s2, listen_effects tried @ eff1 @ opening # eff2))
                         else
                           (Returned (Some ses), s1,
                            listen_effects tried @ eff1 @
                            [opening, ShowInformationMessage MsgBrowserOpened]))))"

subsection \<open>extension.ts: resuming from the start command\<close>




subsection \<open>Example inputs\<close>

text \<open>
  A provider with no login in progress and empty stores, and an environment in which every
  collaborator succeeds: credentials configured, port free, browser opened, one request
  to \<open>/auth-callback\<close> carrying the code \<open>C\<close> and the expected state \<open>S\<close>, token and portal
  endpoints answering. The examples below vary one field at a time.
\<close>

definition idle_provider :: ZohoAuthenticationProvider where
  "idle_provider =
     \<lparr>localAuthServer = None, isAuthenticating = False, uriHandlerRegistration = None,
      authenticationSession = None, secrets = Map.empty, globalState = Map.empty\<rparr>"

definition ok_env :: login_env where
  "ok_env =
     \<lparr>cfg_clientId = Some ''cid'', cfg_clientSecret = Some ''sec'', cfg_apiDomain = None,
      dialog_response = Dismissed, uuid = ''S'', os_listen = (\<lambda>_. Listening),
      openExternal_throws = False,
      requests = [Some \<lparr>pathname = ''/auth-callback'',
                        query = [''code'' \<mapsto> QStr ''C'', ''state'' \<mapsto> QStr ''S'']\<rparr>],
      uri_delivery = None, token_response = Inr (''A'', ''R''),
      portal_response = Inr (Some ''u1'', Some ''Me''), open_docs = False\<rparr>"

subsection \<open>The elapsed time as the specification words it\<close>

text \<open>
  Not taken from the source but from the specification, for comparison with
  \<open>stopTimer_totalMs\<close>: "\<open>elapsedMs = now - startedAt - accumulatedPausedMs\<close> (further
  subtracting \<open>now - pausedAt\<close> if currently paused)".
\<close>

definition spec_elapsedMs :: "int \<Rightarrow> timer \<Rightarrow> int" where
  "spec_elapsedMs now t =
     now - startTime t - totalPausedMs t
       - (case (isPaused t, pausedAt t) of (True, Some p) \<Rightarrow> now - p | _ \<Rightarrow> 0)"

section \<open>Properties of the timer state machine\<close>

subsection \<open>Helper facts\<close>

lemma stopTimer_totalMs_running:
  "\<not> isPaused t \<Longrightarrow> stopTimer_totalMs now t = spec_elapsedMs now t"
  by (simp add: stopTimer_totalMs_def spec_elapsedMs_def)

lemma stopTimer_totalMs_paused:
  "isPaused t \<Longrightarrow> pausedAt t = Some p \<Longrightarrow>
     stopTimer_totalMs now t = spec_elapsedMs now t + (now - p)"
  by (simp add: stopTimer_totalMs_def spec_elapsedMs_def)

lemma getCurrentTimerElapsed_totalMs_spec:
  "currentTimer m = Some t \<Longrightarrow>
     getCurrentTimerElapsed_totalMs now m = Some (spec_elapsedMs now t)"
  by (simp add: getCurrentTimerElapsed_totalMs_def spec_elapsedMs_def
           split: option.splits bool.splits)

lemma ZohoStatusBar_start_running_rejected:
  "sb_isRunning sb \<Longrightarrow> \<not> sb_isPaused sb \<Longrightarrow> ZohoStatusBar_start now task sb = (sb, True)"
  by (simp add: ZohoStatusBar_start_def)




text \<open>
  The guards of \<open>startTimer\<close>: without API client or portal, or for a task that is not in
  the loaded list, it returns \<open>false\<close>, changes nothing and issues no remote call, whatever
  the timer state.
\<close>

lemma startTimer_guards_fail:
  "apiClient m = None \<or> \<not> truthy (portalId m) \<or> findTaskById m tid = None \<Longrightarrow>
     startTimer now api m tid = (False, m, [])"
  by (auto simp: startTimer_def Let_def)


subsection \<open>Stopping while paused\<close>

text \<open>
  Claim C2. The elapsed time that \<open>stop()\<close> converts to hours and minutes should be the
  time between start and stop minus all paused intervals, including the interval still
  open when the timer is stopped while paused. \<open>stopTimer\<close> does not subtract the open
  interval, although \<open>getCurrentTimerElapsed\<close> does: for a timer started at 0 ms, paused
  at 60000 ms and stopped at 180000 ms while still paused, \<open>stopTimer\<close> logs 0 hours and 3
  minutes, where the specified elapsed time is 60000 ms (1 minute), which is also what
  \<open>getCurrentTimerElapsed\<close> shows at that instant (00:01:00).
\<close>

theorem stopTimer_paused_counts_open_pause:
  "stopTimer 180000 ''2025-01-01'' (ApiData True) (ApiData True)
     \<lparr>apiClient = Some ''tok'', portalId = Some ''portal'',
      tasks = [ZohoTask ''T1'' ''one'' ''P1'' None],
      currentTimer = Some \<lparr>taskId = ''T1'', projectId = ''P1'', startTime = 0,
        isPaused = True, pausedAt = Some 60000, totalPausedMs = 0\<rparr>\<rparr>
   = (True,
      \<lparr>apiClient = Some ''tok'', portalId = Some ''portal'',
       tasks = [ZohoTask ''T1'' ''one'' ''P1'' None], currentTimer = None\<rparr>,
      [StopTimerCall ''portal'' ''P1'' ''T1'',
       LogTimeCall ''portal'' ''P1''
         \<lparr>log_task_id = ''T1'', hours = 0, minutes = 3, work_date = ''2025-01-01'',
          bill_status = ''Billable'',
          log_notes = ''Tiempo registrado automaticamente por VS Code Extension''\<rparr>])
   \<and> spec_elapsedMs 180000
       \<lparr>taskId = ''T1'', projectId = ''P1'', startTime = 0, isPaused = True,
        pausedAt = Some 60000, totalPausedMs = 0\<rparr> = 60000
   \<and> getCurrentTimerElapsed 180000
       \<lparr>apiClient = Some ''tok'', portalId = Some ''portal'',
        tasks = [ZohoTask ''T1'' ''one'' ''P1'' None],
        currentTimer = Some \<lparr>taskId = ''T1'', projectId = ''P1'', startTime = 0,
          isPaused = True, pausedAt = Some 60000, totalPausedMs = 0\<rparr>\<rparr> = (0, 1, 0)"
  by (simp add: stopTimer_def stopTimer_timeLog_def stopTimer_totalMs_def spec_elapsedMs_def
        getCurrentTimerElapsed_def getCurrentTimerElapsed_totalMs_def
        js_floor_div_def js_rem_def truthy_def or_default_def Let_def)

subsection \<open>Starting a second timer\<close>

text \<open>
  Claim C4. \<open>start(taskId')\<close> while a timer is running for another task should be
  rejected and leave the running timer unchanged. \<open>TasksManager.startTimer\<close> has no such
  guard (\<open>ZohoStatusBar.start\<close> has it, see \<open>ZohoStatusBar_start_running_rejected\<close>): with
  a timer running for T1 since 0 ms, \<open>startTimer("T2")\<close> at 5000 ms issues the remote start
  call and, when that succeeds, returns \<open>true\<close> and replaces the timer by a new one for T2.
\<close>

theorem startTimer_running_other_task_replaces:
  "startTimer 5000 (ApiData True)
     \<lparr>apiClient = Some ''tok'', portalId = Some ''portal'',
      tasks = [ZohoTask ''T1'' ''one'' ''P1'' None, ZohoTask ''T2'' ''two'' ''P1'' None],
      currentTimer = Some \<lparr>taskId = ''T1'', projectId = ''P1'', startTime = 0,
        isPaused = False, pausedAt = None, totalPausedMs = 0\<rparr>\<rparr> ''T2''
   = (True,
      \<lparr>apiClient = Some ''tok'', portalId = Some ''portal'',
       tasks = [ZohoTask ''T1'' ''one'' ''P1'' None, ZohoTask ''T2'' ''two'' ''P1'' None],
       currentTimer = Some \<lparr>taskId = ''T2'', projectId = ''P1'', startTime = 5000,
         isPaused = False, pausedAt = None, totalPausedMs = 0\<rparr>\<rparr>,
      [StartTimerCall ''portal'' ''P1'' ''T2''])"
  by (simp add: startTimer_def startTimer_new_def findTaskById_def truthy_def
        or_default_def Let_def)

subsection \<open>Resuming a paused timer\<close>



subsection \<open>Pausing\<close>

text \<open>
  Claim C10. \<open>pauseTimer()\<close> with no active timer, or with a timer that is already
  paused, returns \<open>false\<close>, issues no remote call and leaves the manager unchanged; whenever
  \<open>pauseTimer()\<close> issues a remote call, there is a timer and it is not paused (the Running
  state).
\<close>

theorem pauseTimer_only_from_running:
  "(currentTimer m = None \<or> (\<exists>t. currentTimer m = Some t \<and> isPaused t)
      \<longrightarrow> pauseTimer now api m = (False, m, []))
   \<and> (snd (snd (pauseTimer now api m)) \<noteq> []
      \<longrightarrow> (\<exists>t. currentTimer m = Some t \<and> \<not> isPaused t))"
  by (auto simp: pauseTimer_def Let_def split: option.splits api_result.splits bool.splits)

theorem pauseTimer_only_from_running_witness:
  "pauseTimer 7000 (ApiData True)
     \<lparr>apiClient = Some ''tok'', portalId = Some ''portal'', tasks = [],
      currentTimer = Some \<lparr>taskId = ''T1'', projectId = ''P1'', startTime = 0,
        isPaused = True, pausedAt = Some 5000, totalPausedMs = 0\<rparr>\<rparr>
   = (False,
      \<lparr>apiClient = Some ''tok'', portalId = Some ''portal'', tasks = [],
       currentTimer = Some \<lparr>taskId = ''T1'', projectId = ''P1'', startTime = 0,
         isPaused = True, pausedAt = Some 5000, totalPausedMs = 0\<rparr>\<rparr>,
      [])
   \<and> snd (snd (pauseTimer 7000 (ApiData True)
        \<lparr>apiClient = Some ''tok'', portalId = Some ''portal'', tasks = [],
         currentTimer = Some \<lparr>taskId = ''T1'', projectId = ''P1'', startTime = 0,
           isPaused = False, pausedAt = None, totalPausedMs = 0\<rparr>\<rparr>))
     = [PauseTimerCall ''portal'' ''P1'' ''T1'']"
  using pauseTimer_only_from_running
    [of "\<lparr>apiClient = Some ''tok'', portalId = Some ''portal'', tasks = [],
          currentTimer = Some \<lparr>taskId = ''T1'', projectId = ''P1'', startTime = 0,
            isPaused = True, pausedAt = Some 5000, totalPausedMs = 0\<rparr>\<rparr>" 7000 "ApiData True"]
  by (simp add: pauseTimer_def truthy_def or_default_def Let_def)

section \<open>Properties of the login drafts\<close>

subsection \<open>Helper facts\<close>

lemmas login_local_defs =
  login_local_def login_local_wait_def login_local_exchange_def local_fail_def
  cleanupLocalServer_def LocalAuthServer_stop_def LocalAuthServer_start_def listen_def
  store_tokens_def store_session_def truthy_def or_default_def getRedirectUri_port_def
  waitForAuthCode_def handleRequest_def qval_truthy_def local_exchange_message_def
  make_session_def apiDomain_of_def credentials_dialog_def

lemmas login_uri_defs =
  login_uri_def login_uri_await_def login_uri_catch_def handleUri_def uri_exchange_failed_def
  uri_reject_def setupUriHandler_def clearUriHandler_def LOGIN_TIMEOUT_MS_def
  extractQueryParams_def truthy_def or_default_def store_tokens_def store_session_def
  make_session_def apiDomain_of_def credentials_dialog_def

lemma qval_toString_nonempty: "qval_truthy (Some v) \<Longrightarrow> qval_toString v \<noteq> []"
  by (cases v) (simp_all add: qval_truthy_def)

lemma handleRequest_response: "fst (handleRequest req) = \<lparr>status = 200, body = SuccessPage\<rparr>"
  by (simp add: handleRequest_def Let_def)

lemma handleRequest_path_irrelevant:
  "handleRequest (Some (u\<lparr>pathname := path\<rparr>)) = handleRequest (Some u)"
  by (simp add: handleRequest_def)

lemma handleRequest_code_nonempty:
  "handleRequest req = (resp, AuthCodeEvent code st) \<Longrightarrow> code \<noteq> [] \<and> st \<noteq> []"
  by (auto simp: handleRequest_def Let_def qval_toString_nonempty
         split: option.splits if_splits)

lemma waitForAuthCode_code_nonempty:
  "waitForAuthCode reqs = Some (resp, AuthCodeEvent code st) \<Longrightarrow> code \<noteq> [] \<and> st \<noteq> []"
  by (auto simp: waitForAuthCode_def split: list.splits dest: handleRequest_code_nonempty)

subsection \<open>The state check\<close>

text \<open>
  Claim C1, as stated: whenever the listener delivers a pair whose state is the expected
  one, \<open>login()\<close> persists both tokens. It does not when the token endpoint rejects the
  exchange: with the expected state \<open>S\<close> delivered and \<open>axios.post\<close> throwing, \<open>login()\<close>
  shows the processing error, cleans up and returns \<open>undefined\<close>, and the secret store is
  as before (empty).
\<close>

theorem login_local_exchange_rejected_stores_nothing:
  "login_local (ok_env\<lparr>token_response := Inl ''invalid_code''\<rparr>) idle_provider
     = (Returned None, idle_provider,
        [ServerListen 3000, OpenExternal ''cid'' (LocalhostCallback 3000) ''S'',
         ShowInformationMessage MsgBrowserOpened,
         HttpRespond \<lparr>status = 200, body = SuccessPage\<rparr>,
         ShowInformationMessage MsgProcessing,
         TokenPost ''cid'' ''sec'' ''C'' (LocalhostCallback 3000),
         ShowErrorMessage MsgProcessError, ServerClose])"
  by (simp add: ok_env_def idle_provider_def login_local_defs Let_def)

text \<open>
  Claim C1, amended: in every login attempt of the loopback draft in which the listener
  delivers a pair \<open>{code, state}\<close> (no login in progress, credentials configured, server
  bound, browser opened): if the returned state equals the expected state, \<open>login()\<close>
  proceeds to the token exchange with that code. If the token endpoint answers with
  tokens, \<open>login()\<close> writes the access token and the refresh token into the secret store
  (and then returns the session, or, when the portal request fails, shows the error and
  returns \<open>undefined\<close> with the tokens stored). If the token endpoint rejects the
  exchange, nothing is stored and the attempt fails with the exchange error (the
  redirect-URI message when the error mentions the redirect URI, the processing error
  otherwise). If the returned state differs, \<open>login()\<close> shows the security error, closes
  the server, clears the pending flag and returns \<open>undefined\<close> without a token exchange,
  the stores unchanged.
\<close>

theorem login_local_state_check:
  assumes "\<not> isAuthenticating p"
    and "cfg_clientId env = Some cid" and "cid \<noteq> []"
    and "cfg_clientSecret env = Some csec" and "csec \<noteq> []"
    and "os_listen env 3000 = Listening"
    and "\<not> openExternal_throws env"
    and "waitForAuthCode (requests env) = Some (resp, AuthCodeEvent code st)"
  shows "(st = uuid env \<longrightarrow>
            TokenPost cid csec code (LocalhostCallback 3000)
              \<in> set (snd (snd (login_local env p))))
       \<and> (st = uuid env \<and> token_response env = Inr (access, refresh) \<longrightarrow>
            secrets (fst (snd (login_local env p)))
              = (secrets p)(''zoho-access-token'' \<mapsto> access,
                            ''zoho-refresh-token'' \<mapsto> refresh))
       \<and> (st = uuid env \<and> token_response env = Inl e \<longrightarrow>
            login_local env p =
              (Returned None, p\<lparr>localAuthServer := None, isAuthenticating := False\<rparr>,
               [ServerListen 3000, OpenExternal cid (LocalhostCallback 3000) (uuid env),
                ShowInformationMessage MsgBrowserOpened, HttpRespond resp,
                ShowInformationMessage MsgProcessing,
                TokenPost cid csec code (LocalhostCallback 3000),
                ShowErrorMessage (local_exchange_message e), ServerClose]))
       \<and> (st = uuid env \<and> token_response env = Inr (access, refresh)
            \<and> portal_response env = Inl e' \<longrightarrow>
            login_local env p =
              (Returned None,
               (store_tokens access refresh p)
                 \<lparr>localAuthServer := None, isAuthenticating := False\<rparr>,
               [ServerListen 3000, OpenExternal cid (LocalhostCallback 3000) (uuid env),
                ShowInformationMessage MsgBrowserOpened, HttpRespond resp,
                ShowInformationMessage MsgProcessing,
                TokenPost cid csec code (LocalhostCallback 3000),
                PortalGet (apiDomain_of env) access,
                ShowErrorMessage (local_exchange_message e'), ServerClose]))
       \<and> (st = uuid env \<and> token_response env = Inr (access, refresh)
            \<and> portal_response env = Inr user \<longrightarrow>
            login_local env p =
              (Returned (Some (make_session access user)),
               (store_session (make_session access user) (store_tokens access refresh p))
                 \<lparr>localAuthServer := None, isAuthenticating := False\<rparr>,
               [ServerListen 3000, OpenExternal cid (LocalhostCallback 3000) (uuid env),
                ShowInformationMessage MsgBrowserOpened, HttpRespond resp,
                ShowInformationMessage MsgProcessing,
                TokenPost cid csec code (LocalhostCallback 3000),
                PortalGet (apiDomain_of env) access,
                ShowInformationMessage (MsgLoggedIn (account_label (make_session access user))),
                ServerClose]))
       \<and> (st \<noteq> uuid env \<longrightarrow>
            login_local env p =
              (Returned None, p\<lparr>localAuthServer := None, isAuthenticating := False\<rparr>,
               [ServerListen 3000, OpenExternal cid (LocalhostCallback 3000) (uuid env),
                ShowInformationMessage MsgBrowserOpened, HttpRespond resp,
                ShowErrorMessage MsgStateMismatch, ServerClose]))"
proof -
  have ne: "code \<noteq> []"
    using assms(8) waitForAuthCode_code_nonempty by blast
  have start: "LocalAuthServer_start (os_listen env) \<lparr>server = None, port = 3000\<rparr>
                 = (Resolved, \<lparr>server = Some True, port = 3000\<rparr>, [3000])"
    using assms(6) by (simp add: LocalAuthServer_start_def listen_def)
  have login: "login_local env p =
     (case login_local_wait env (uuid env) cid csec (LocalhostCallback 3000)
             (p\<lparr>isAuthenticating := True,
                localAuthServer := Some \<lparr>server = Some True, port = 3000\<rparr>\<rparr>) of
        (r, p', eff) \<Rightarrow>
          (r, p', [ServerListen 3000, OpenExternal cid (LocalhostCallback 3000) (uuid env),
                   ShowInformationMessage MsgBrowserOpened] @ eff))"
    using assms(1-5,7) start
    by (simp add: login_local_def truthy_def or_default_def getRedirectUri_port_def Let_def)
  show ?thesis
    unfolding login
    using ne assms(8)
    by (auto simp: login_local_wait_def login_local_exchange_def local_fail_def
          cleanupLocalServer_def LocalAuthServer_stop_def store_tokens_def store_session_def
          Let_def
          split: sum.splits prod.splits)
qed

theorem login_local_state_check_witness:
  "TokenPost ''cid'' ''sec'' ''C'' (LocalhostCallback 3000)
     \<in> set (snd (snd (login_local ok_env idle_provider)))
   \<and> secrets (fst (snd (login_local ok_env idle_provider)))
       = [''zoho-access-token'' \<mapsto> ''A'', ''zoho-refresh-token'' \<mapsto> ''R'']
   \<and> login_local (ok_env\<lparr>uuid := ''X''\<rparr>) idle_provider
       = (Returned None, idle_provider,
          [ServerListen 3000, OpenExternal ''cid'' (LocalhostCallback 3000) ''X'',
           ShowInformationMessage MsgBrowserOpened,
           HttpRespond \<lparr>status = 200, body = SuccessPage\<rparr>,
           ShowErrorMessage MsgStateMismatch, ServerClose])"
proof -
  have w: "waitForAuthCode (requests ok_env)
             = Some (\<lparr>status = 200, body = SuccessPage\<rparr>, AuthCodeEvent ''C'' ''S'')"
    by (simp add: ok_env_def waitForAuthCode_def handleRequest_def qval_truthy_def)
  have w': "waitForAuthCode (requests (ok_env\<lparr>uuid := ''X''\<rparr>))
             = Some (\<lparr>status = 200, body = SuccessPage\<rparr>, AuthCodeEvent ''C'' ''S'')"
    using w by simp
  have matching:
    "TokenPost ''cid'' ''sec'' ''C'' (LocalhostCallback 3000)
       \<in> set (snd (snd (login_local ok_env idle_provider)))
     \<and> secrets (fst (snd (login_local ok_env idle_provider)))
         = (secrets idle_provider)(''zoho-access-token'' \<mapsto> ''A'',
                                   ''zoho-refresh-token'' \<mapsto> ''R'')"
    using login_local_state_check
      [where p = idle_provider and env = ok_env and cid = "''cid''" and csec = "''sec''"
         and access = "''A''" and refresh = "''R''" and e = "''e''" and e' = "''e''"
         and user = "(Some ''u1'', Some ''Me'')", OF _ _ _ _ _ _ _ w]
    by (simp add: ok_env_def idle_provider_def store_tokens_def store_session_def)
  have differing:
    "login_local (ok_env\<lparr>uuid := ''X''\<rparr>) idle_provider
       = (Returned None, idle_provider\<lparr>localAuthServer := None, isAuthenticating := False\<rparr>,
          [ServerListen 3000, OpenExternal ''cid'' (LocalhostCallback 3000) ''X'',
           ShowInformationMessage MsgBrowserOpened,
           HttpRespond \<lparr>status = 200, body = SuccessPage\<rparr>,
           ShowErrorMessage MsgStateMismatch, ServerClose])"
    using login_local_state_check
      [where p = idle_provider and env = "ok_env\<lparr>uuid := ''X''\<rparr>" and cid = "''cid''"
         and csec = "''sec''" and access = "''A''" and refresh = "''R''" and e = "''e''"
         and e' = "''e''" and user = "(Some ''u1'', Some ''Me'')", OF _ _ _ _ _ _ _ w']
    by (simp add: ok_env_def idle_provider_def)
  show ?thesis
    using matching differing by (simp add: idle_provider_def)
qed

subsection \<open>One login at a time\<close>

text \<open>
  The guard at the head of \<open>login()\<close>: while the loopback draft's \<open>isAuthenticating\<close> flag
  is set, or the custom-scheme draft's URI handler is registered, a further \<open>login()\<close>
  returns \<open>undefined\<close> after the "already in progress" information message and does
  nothing else.
\<close>

lemma login_guard:
  "(isAuthenticating p \<longrightarrow>
      login_local env p = (Returned None, p, [ShowInformationMessage MsgAlreadyInProgress]))
   \<and> (uriHandlerRegistration p \<noteq> None \<longrightarrow>
      login_uri env p = (Returned None, p, [ShowInformationMessage MsgAlreadyInProgress]))"
  by (simp add: login_local_def login_uri_def)

lemmas uri_event_defs =
  login_uri_call_def timer_fires_def setupUriHandler_def clearUriHandler_def
  login_uri_catch_def

text \<open>
  The events agree with \<open>login_uri\<close> when nothing else happens in between: a call that
  suspends, followed by its own timer, is the timed-out login.
\<close>

lemma events_agree_with_login_uri:
  assumes "uriHandlerRegistration (rt_provider w) = None"
    and "rt_timers w = []" and "rt_awaiting w = []"
    and "truthy (cfg_clientId env)" and "truthy (cfg_clientSecret env)"
    and "\<not> openExternal_throws env" and "uri_delivery env = None"
  shows "(case login_uri_call t env w of
            (r1, w1, e1) \<Rightarrow>
              (case timer_fires (t + LOGIN_TIMEOUT_MS) (uuid env) w1 of
                 (w2, e2) \<Rightarrow>
                   r1 = AwaitingRedirect
                   \<and> login_uri env (rt_provider w) = (Returned None, rt_provider w2, e1 @ e2)
                   \<and> rt_timers w2 = [] \<and> rt_awaiting w2 = []))"
  using assms
  by (simp add: uri_event_defs login_uri_def login_uri_await_def Let_def)

text \<open>
  Likewise a call that suspends, followed by the delivery of a URI before the deadline,
  is the login that received that URI.
\<close>

lemma events_agree_on_delivery:
  assumes "uriHandlerRegistration (rt_provider w) = None"
    and "rt_timers w = []" and "rt_awaiting w = []"
    and "truthy (cfg_clientId env)" and "truthy (cfg_clientSecret env)"
    and "\<not> openExternal_throws env"
    and "uri_delivery env = Some (t', uri)" and "t' < LOGIN_TIMEOUT_MS"
  shows "(case login_uri_call t env w of
            (r1, w1, e1) \<Rightarrow>
              (case uri_delivered env uri w1 of
                 (r2, w2, e2) \<Rightarrow>
                   r1 = AwaitingRedirect
                   \<and> (\<exists>r. r2 = Some r
                          \<and> login_uri env (rt_provider w) = (Returned r, rt_provider w2, e1 @ e2))
                   \<and> rt_timers w2 = [] \<and> rt_awaiting w2 = []))"
  using assms
  by (auto simp: login_uri_call_def uri_delivered_def setupUriHandler_def clearUriHandler_def
        login_uri_def login_uri_await_def login_uri_catch_def Let_def
        split: prod.splits option.splits)

text \<open>
  Claim C3. At most one login attempt should be pending at any instant: while one is in
  progress a further \<open>login()\<close> should answer "already in progress" and leave the pending
  attempt alone, open no browser window and register no listener. In the loopback draft
  the flag does that (\<open>login_guard\<close>). In the custom-scheme draft the pending marker is
  the static handler registration, and the \<open>catch\<close> for a failed browser launch clears the
  registration but not the timer of its attempt. Starting with nothing pending: a first
  \<open>login()\<close> at \<open>t1\<close> whose browser launch throws returns, its timer still armed; a second
  \<open>login()\<close> at \<open>t2\<close>, within its ten minutes, registers its handler and waits; at
  \<open>t1\<close> + 10 minutes the stale timer of the first attempt disposes the handler of the
  second, which keeps waiting; a third \<open>login()\<close> at \<open>t3\<close>, before the second attempt's own
  deadline, then passes the guard, arms a timer, registers a second handler and opens a
  second browser window, and two attempts are pending. (The conditions on the times only
  say that real time allows this order of events.)
\<close>

theorem stale_timer_admits_second_pending_login:
  assumes "uriHandlerRegistration (rt_provider w) = None"
    and "rt_timers w = []" and "rt_awaiting w = []"
    and "truthy (cfg_clientId env1)" and "truthy (cfg_clientSecret env1)"
    and "truthy (cfg_clientId env2)" and "truthy (cfg_clientSecret env2)"
    and "truthy (cfg_clientId env3)" and "truthy (cfg_clientSecret env3)"
    and "openExternal_throws env1"
    and "\<not> openExternal_throws env2" and "\<not> openExternal_throws env3"
    and "uuid env1 \<noteq> uuid env2"
    and "t1 \<le> t2" and "t2 < t1 + LOGIN_TIMEOUT_MS" and "t1 + LOGIN_TIMEOUT_MS \<le> t3"
    and "t3 < t2 + LOGIN_TIMEOUT_MS"
  shows "(case login_uri_call t1 env1 w of
            (r1, w1, e1) \<Rightarrow>
              (case login_uri_call t2 env2 w1 of
                 (r2, w2, e2) \<Rightarrow>
                   (case timer_fires (t1 + LOGIN_TIMEOUT_MS) (uuid env1) w2 of
                      (w3, e3) \<Rightarrow>
                        (case login_uri_call t3 env3 w3 of
                           (r4, w4, e4) \<Rightarrow>
                             r1 = Done None
                             \<and> r2 = AwaitingRedirect
                             \<and> rt_awaiting w2 = [uuid env2]
                             \<and> e3 = [ShowWarningMessage MsgExpired, DisposeUriHandler]
                             \<and> rt_awaiting w3 = [uuid env2]
                             \<and> uriHandlerRegistration (rt_provider w3) = None
                             \<and> r4 = AwaitingRedirect
                             \<and> rt_awaiting w4 = [uuid env2, uuid env3]
                             \<and> rt_timers w4 = [(uuid env2, t2 + LOGIN_TIMEOUT_MS),
                                               (uuid env3, t3 + LOGIN_TIMEOUT_MS)]
                             \<and> e4 = [SetTimeout LOGIN_TIMEOUT_MS, RegisterUriHandler,
                                     OpenExternal (or_default (cfg_clientId env3) [])
                                       VscodeCallback (uuid env3),
                                     ShowInformationMessage MsgBrowserOpened]))))"
  using assms
  by (simp add: uri_event_defs Let_def)

text \<open>
  The failing input: the first login at 0 (browser launch throws), the second at 5
  minutes, the stale timer at 10 minutes, the third login at 11 minutes.
\<close>

theorem stale_timer_admits_second_pending_login_witness:
  "(case login_uri_call 0 (ok_env\<lparr>uuid := ''S1'', openExternal_throws := True\<rparr>)
           \<lparr>rt_provider = idle_provider, rt_timers = [], rt_awaiting = []\<rparr> of
      (r1, w1, e1) \<Rightarrow>
        (case login_uri_call 300000 (ok_env\<lparr>uuid := ''S2''\<rparr>) w1 of
           (r2, w2, e2) \<Rightarrow>
             (case timer_fires 600000 ''S1'' w2 of
                (w3, e3) \<Rightarrow>
                  (case login_uri_call 660000 (ok_env\<lparr>uuid := ''S3''\<rparr>) w3 of
                     (r4, w4, e4) \<Rightarrow>
                       r2 = AwaitingRedirect
                       \<and> rt_awaiting w3 = [''S2'']
                       \<and> uriHandlerRegistration (rt_provider w3) = None
                       \<and> r4 = AwaitingRedirect
                       \<and> rt_awaiting w4 = [''S2'', ''S3'']
                       \<and> e4 = [SetTimeout 600000, RegisterUriHandler,
                               OpenExternal ''cid'' VscodeCallback ''S3'',
                               ShowInformationMessage MsgBrowserOpened]))))"
  using stale_timer_admits_second_pending_login
    [of "\<lparr>rt_provider = idle_provider, rt_timers = [], rt_awaiting = []\<rparr>"
        "ok_env\<lparr>uuid := ''S1'', openExternal_throws := True\<rparr>" "ok_env\<lparr>uuid := ''S2''\<rparr>"
        "ok_env\<lparr>uuid := ''S3''\<rparr>" 0 300000 660000]
  by (simp add: ok_env_def idle_provider_def truthy_def or_default_def LOGIN_TIMEOUT_MS_def
        split: prod.splits)

subsection \<open>The deadline\<close>

text \<open>
  The custom-scheme draft has the deadline: when no URI is delivered before
  \<open>LOGIN_TIMEOUT_MS\<close> (10 minutes), the timer shows the expiry warning, disposes the
  handler and rejects, and \<open>login()\<close> returns \<open>undefined\<close>.
\<close>

lemma login_uri_deadline:
  assumes "uriHandlerRegistration p = None"
    and "cfg_clientId env = Some cid" and "cid \<noteq> []"
    and "cfg_clientSecret env = Some csec" and "csec \<noteq> []"
    and "\<not> openExternal_throws env"
    and "uri_delivery env = None
         \<or> (\<exists>t u. uri_delivery env = Some (t, u) \<and> t \<ge> 10 * 60 * 1000)"
  shows "login_uri env p =
           (Returned None, p,
            [SetTimeout (10 * 60 * 1000), RegisterUriHandler,
             OpenExternal cid VscodeCallback (uuid env),
             ShowInformationMessage MsgBrowserOpened, ShowWarningMessage MsgExpired,
             DisposeUriHandler, ShowErrorMessage MsgAuthError])"
  using assms
  by (auto simp: login_uri_def login_uri_await_def login_uri_catch_def setupUriHandler_def
        clearUriHandler_def LOGIN_TIMEOUT_MS_def truthy_def or_default_def Let_def)

text \<open>
  Claim C5. Every login attempt should await the listener under a deadline of 10 minutes
  and fail with the timed-out result when it elapses. The loopback draft does not:
  \<open>waitForAuthCode\<close> only subscribes to the two events, and \<open>login\<close> awaits it without a
  timer. Whenever an attempt gets as far as waiting (no login in progress, credentials
  configured, port 3000 bound, browser opened) and no request ever reaches the server,
  \<open>login()\<close> never returns; the server stays up and \<open>isAuthenticating\<close> stays set, so
  every later \<open>login()\<close> answers "already in progress". No timer was armed.
\<close>

theorem login_local_never_times_out:
  assumes "\<not> isAuthenticating p"
    and "cfg_clientId env = Some cid" and "cid \<noteq> []"
    and "cfg_clientSecret env = Some csec" and "csec \<noteq> []"
    and "os_listen env 3000 = Listening" and "\<not> openExternal_throws env"
    and "requests env = []"
  shows "login_local env p =
           (NeverReturns,
            p\<lparr>isAuthenticating := True,
              localAuthServer := Some \<lparr>server = Some True, port = 3000\<rparr>\<rparr>,
            [ServerListen 3000, OpenExternal cid (LocalhostCallback 3000) (uuid env),
             ShowInformationMessage MsgBrowserOpened])"
  using assms
  by (simp add: login_local_def login_local_wait_def waitForAuthCode_def
        LocalAuthServer_start_def listen_def truthy_def or_default_def
        getRedirectUri_port_def Let_def)

text \<open>
  The failing input, and the custom-scheme draft in the same environment, which times
  out and returns.
\<close>

theorem login_local_never_times_out_witness:
  "login_local (ok_env\<lparr>requests := []\<rparr>) idle_provider
     = (NeverReturns,
        idle_provider\<lparr>isAuthenticating := True,
           localAuthServer := Some \<lparr>server = Some True, port = 3000\<rparr>\<rparr>,
        [ServerListen 3000, OpenExternal ''cid'' (LocalhostCallback 3000) ''S'',
         ShowInformationMessage MsgBrowserOpened])
   \<and> login_uri (ok_env\<lparr>requests := []\<rparr>) idle_provider
     = (Returned None, idle_provider,
        [SetTimeout 600000, RegisterUriHandler, OpenExternal ''cid'' VscodeCallback ''S'',
         ShowInformationMessage MsgBrowserOpened, ShowWarningMessage MsgExpired,
         DisposeUriHandler, ShowErrorMessage MsgAuthError])"
proof -
  have stuck:
    "login_local (ok_env\<lparr>requests := []\<rparr>) idle_provider
       = (NeverReturns,
          idle_provider\<lparr>isAuthenticating := True,
             localAuthServer := Some \<lparr>server = Some True, port = 3000\<rparr>\<rparr>,
          [ServerListen 3000,
           OpenExternal ''cid'' (LocalhostCallback 3000) (uuid (ok_env\<lparr>requests := []\<rparr>)),
           ShowInformationMessage MsgBrowserOpened])"
    by (rule login_local_never_times_out [where cid = "''cid''" and csec = "''sec''"])
       (simp_all add: ok_env_def idle_provider_def)
  have expires:
    "login_uri (ok_env\<lparr>requests := []\<rparr>) idle_provider
       = (Returned None, idle_provider,
          [SetTimeout 600000, RegisterUriHandler, OpenExternal ''cid'' VscodeCallback ''S'',
           ShowInformationMessage MsgBrowserOpened, ShowWarningMessage MsgExpired,
           DisposeUriHandler, ShowErrorMessage MsgAuthError])"
    by (simp add: ok_env_def idle_provider_def login_uri_defs Let_def)
  show ?thesis
    using stuck expires by (simp add: ok_env_def)
qed

section \<open>Properties of the loopback listener\<close>

subsection \<open>Paths\<close>

text \<open>
  A stray request makes a waiting login of the loopback draft fail: the request for
  \<open>/favicon.ico\<close> is answered with the success page, the \<open>error\<close> event rejects
  \<open>waitForAuthCode\<close>, and \<open>login()\<close> shows the error and returns \<open>undefined\<close>.
\<close>

lemma stray_request_fails_login:
  "login_local
       (ok_env\<lparr>requests := [Some \<lparr>pathname = ''/favicon.ico'', query = Map.empty\<rparr>]\<rparr>)
       idle_provider
     = (Returned None, idle_provider,
        [ServerListen 3000, OpenExternal ''cid'' (LocalhostCallback 3000) ''S'',
         ShowInformationMessage MsgBrowserOpened,
         HttpRespond \<lparr>status = 200, body = SuccessPage\<rparr>,
         ShowErrorMessage MsgAuthProcessError, ServerClose])"
  by (simp add: ok_env_def idle_provider_def login_local_defs Let_def)

text \<open>
  Claim C6. A request whose path is not \<open>/auth-callback\<close> should receive a 404.
  \<open>LocalAuthServer.handleRequest\<close> never looks at the path (see
  \<open>handleRequest_response\<close>): a request for \<open>/favicon.ico\<close> is answered with status 200 and
  the success page and, having no code and state, emits the \<open>error\<close> event. The handler
  of authentication.ts.new answers the same request with 404 and leaves the login
  pending.
\<close>

theorem handleRequest_ignores_path:
  "handleRequest (Some \<lparr>pathname = ''/favicon.ico'', query = Map.empty\<rparr>)
     = (\<lparr>status = 200, body = SuccessPage\<rparr>, ErrorEvent)
   \<and> startLocalServer_handler ''S'' (Some \<lparr>pathname = ''/favicon.ico'', query = Map.empty\<rparr>)
     = (\<lparr>status = 404, body = MessagePage ''Pagina no encontrada''\<rparr>, Ignored)"
  by (simp add: handleRequest_def startLocalServer_handler_def)

subsection \<open>Binding the port\<close>

lemma startLocalServer_listen_retries:
  "(\<forall>q. p \<le> q \<and> q < p + k \<longrightarrow> listen os q = EADDRINUSE) \<Longrightarrow>
   listen os (p + k) \<noteq> EADDRINUSE \<Longrightarrow>
   startLocalServer_listen os p =
     (if listen os (p + k) = Listening then Resolved else Rejected (listen os (p + k)),
      p + k, [p..<Suc (p + k)])"
proof (induction k arbitrary: p)
  case 0
  then show ?case
    by (subst startLocalServer_listen.simps) (cases "listen os p"; simp)
next
  case (Suc k)
  have here: "listen os p = EADDRINUSE"
    using Suc.prems(1) by simp
  have rest: "\<forall>q. Suc p \<le> q \<and> q < Suc p + k \<longrightarrow> listen os q = EADDRINUSE"
    using Suc.prems(1) by simp
  have last: "listen os (Suc p + k) \<noteq> EADDRINUSE"
    using Suc.prems(2) by simp
  have ih: "startLocalServer_listen os (Suc p) =
     (if listen os (Suc p + k) = Listening then Resolved else Rejected (listen os (Suc p + k)),
      Suc p + k, [Suc p..<Suc (Suc p + k)])"
    using Suc.IH[OF rest last] .
  show ?case
    by (subst startLocalServer_listen.simps) (simp add: here ih upt_conv_Cons del: upt_Suc)
qed

lemma LocalAuthServer_start_once:
  "server srv = None \<Longrightarrow>
     LocalAuthServer_start os srv =
       (if listen os (port srv) = Listening then Resolved else Rejected (listen os (port srv)),
        srv\<lparr>server := Some (listen os (port srv) = Listening)\<rparr>, [port srv])"
  by (cases "listen os (port srv)") (simp_all add: LocalAuthServer_start_def)

lemma login_local_bind_failure:
  "\<not> isAuthenticating p \<Longrightarrow> truthy (cfg_clientId env) \<Longrightarrow> truthy (cfg_clientSecret env) \<Longrightarrow>
   os_listen env 3000 \<noteq> Listening \<Longrightarrow>
   login_local env p =
     (Returned None, p\<lparr>localAuthServer := Some \<lparr>server = Some False, port = 3000\<rparr>\<rparr>,
      [ServerListen 3000, ShowErrorMessage MsgAuthError])"
  by (cases "os_listen env 3000")
     (simp_all add: login_local_def LocalAuthServer_start_def listen_def Let_def)

lemma login_new_bind_failure:
  assumes "static_server st = None"
    and "truthy (cfg_clientId env)" and "truthy (cfg_clientSecret env)"
    and "\<forall>q. static_serverPort st \<le> q \<and> q < static_serverPort st + k
             \<longrightarrow> listen (os_listen env) q = EADDRINUSE"
    and "listen (os_listen env) (static_serverPort st + k) \<noteq> EADDRINUSE"
    and "listen (os_listen env) (static_serverPort st + k) \<noteq> Listening"
  shows "login_new env (st, p) =
           (Returned None,
            (st\<lparr>static_server := None, static_serverPort := static_serverPort st + k\<rparr>, p),
            listen_effects [static_serverPort st..<Suc (static_serverPort st + k)]
              @ [ServerClose, ShowErrorMessage MsgAuthError])"
  using assms startLocalServer_listen_retries [OF assms(4,5)]
  by (simp add: login_new_def login_new_catch_def stopLocalServer_def Let_def)

text \<open>
  Claim C7, as stated: a port-in-use failure is retried exactly once, and a failure of
  that retry fails the attempt. Neither listener does that. With ports 3000 and 3001 in
  use and 3002 free, the listener of authentication.ts.new retries twice and ends up
  listening on 3002; \<open>LocalAuthServer.start\<close> does not retry at all and rejects after the
  first failure on 3000.
\<close>

theorem bind_retry_is_not_exactly_once:
  "startLocalServer_listen (\<lambda>p. if p = 3000 \<or> p = 3001 then EADDRINUSE else Listening) 3000
     = (Resolved, 3002, [3000, 3001, 3002])
   \<and> LocalAuthServer_start (\<lambda>p. if p = 3000 \<or> p = 3001 then EADDRINUSE else Listening)
       \<lparr>server = None, port = 3000\<rparr>
     = (Rejected EADDRINUSE, \<lparr>server = Some False, port = 3000\<rparr>, [3000])"
  by (simp add: startLocalServer_listen.simps listen_def LocalAuthServer_start_def)

text \<open>
  Claim C7, amended. The listener of authentication.ts.new, started on port \<open>p\<close>: while
  the bind fails because the port is in use it moves to the next higher port, as often
  as needed; at the first port \<open>p + k\<close> whose bind does not fail that way it is listening
  if the bind succeeded and otherwise rejects with that failure (this includes the
  \<open>RangeError\<close> past port 65535), and \<open>login()\<close> of that draft then stops the server, shows
  the authentication error and returns \<open>undefined\<close>. \<open>LocalAuthServer.start\<close> binds its one
  port and never retries: any bind failure, port in use included, rejects, and the login
  attempt of the loopback draft then fails with the authentication error.
\<close>

theorem bind_retry_behaviour:
  "((\<forall>q. p \<le> q \<and> q < p + k \<longrightarrow> listen os q = EADDRINUSE) \<and> listen os (p + k) \<noteq> EADDRINUSE
      \<longrightarrow> startLocalServer_listen os p =
            (if listen os (p + k) = Listening then Resolved else Rejected (listen os (p + k)),
             p + k, [p..<Suc (p + k)]))
   \<and> (static_server st = None \<and> truthy (cfg_clientId env') \<and> truthy (cfg_clientSecret env')
        \<and> (\<forall>q. static_serverPort st \<le> q \<and> q < static_serverPort st + k'
               \<longrightarrow> listen (os_listen env') q = EADDRINUSE)
        \<and> listen (os_listen env') (static_serverPort st + k') \<noteq> EADDRINUSE
        \<and> listen (os_listen env') (static_serverPort st + k') \<noteq> Listening
      \<longrightarrow> login_new env' (st, pn) =
            (Returned None,
             (st\<lparr>static_server := None, static_serverPort := static_serverPort st + k'\<rparr>, pn),
             listen_effects [static_serverPort st..<Suc (static_serverPort st + k')]
               @ [ServerClose, ShowErrorMessage MsgAuthError]))
   \<and> (server srv = None
      \<longrightarrow> LocalAuthServer_start os srv =
            (if listen os (port srv) = Listening then Resolved
             else Rejected (listen os (port srv)),
             srv\<lparr>server := Some (listen os (port srv) = Listening)\<rparr>, [port srv]))
   \<and> (\<not> isAuthenticating pr \<and> truthy (cfg_clientId env) \<and> truthy (cfg_clientSecret env)
        \<and> os_listen env 3000 \<noteq> Listening
      \<longrightarrow> login_local env pr =
            (Returned None, pr\<lparr>localAuthServer := Some \<lparr>server = Some False, port = 3000\<rparr>\<rparr>,
             [ServerListen 3000, ShowErrorMessage MsgAuthError]))"
  using startLocalServer_listen_retries [of p k os] LocalAuthServer_start_once [of srv os]
    login_local_bind_failure [of pr env] login_new_bind_failure [of st env' k' pn]
  by blast

theorem bind_retry_behaviour_witness:
  "startLocalServer_listen (\<lambda>p. if p = 3000 then EADDRINUSE else OtherListenError) 3000
     = (Rejected OtherListenError, 3001, [3000, 3001])
   \<and> login_new
       (ok_env\<lparr>os_listen := (\<lambda>p. if p = 3000 then EADDRINUSE else OtherListenError)\<rparr>)
       (\<lparr>static_server = None, static_serverPort = 3000\<rparr>, idle_provider)
     = (Returned None, (\<lparr>static_server = None, static_serverPort = 3001\<rparr>, idle_provider),
        [ServerListen 3000, ServerClose, ServerListen 3001, ServerClose,
         ShowErrorMessage MsgAuthError])
   \<and> LocalAuthServer_start (\<lambda>p. if p = 3000 then EADDRINUSE else OtherListenError)
       \<lparr>server = None, port = 3000\<rparr>
     = (Rejected EADDRINUSE, \<lparr>server = Some False, port = 3000\<rparr>, [3000])
   \<and> login_local (ok_env\<lparr>os_listen := (\<lambda>p. if p = 3000 then EADDRINUSE else Listening)\<rparr>)
       idle_provider
     = (Returned None,
        idle_provider\<lparr>localAuthServer := Some \<lparr>server = Some False, port = 3000\<rparr>\<rparr>,
        [ServerListen 3000, ShowErrorMessage MsgAuthError])"
  using bind_retry_behaviour
    [where p = 3000 and k = 1
       and os = "\<lambda>p. if p = 3000 then EADDRINUSE else OtherListenError"
       and st = "\<lparr>static_server = None, static_serverPort = 3000\<rparr>" and k' = 1
       and env' = "ok_env\<lparr>os_listen := (\<lambda>p. if p = 3000 then EADDRINUSE
                                                  else OtherListenError)\<rparr>"
       and pn = idle_provider
       and srv = "\<lparr>server = None, port = 3000\<rparr>" and pr = idle_provider
       and env = "ok_env\<lparr>os_listen := (\<lambda>p. if p = 3000 then EADDRINUSE else Listening)\<rparr>"]
  by (simp add: listen_def ok_env_def idle_provider_def truthy_def)

section \<open>Properties of the URI normalization\<close>

subsection \<open>Helper facts\<close>

lemma js_includes_canonical_single_slash:
  "js_includes (canonical_prefix @ q) ''vscode:/zoho-projects''
     = js_includes q ''vscode:/zoho-projects''"
  by (simp add: canonical_prefix_def)

lemma js_includes_canonical_triple_slash:
  "js_includes (canonical_prefix @ q) ''vscode:///'' = js_includes q ''vscode:///''"
  by (simp add: canonical_prefix_def)

lemma js_replace_canonical_triple_slash:
  "js_replace (canonical_prefix @ q) ''vscode:///'' ''vscode://''
     = canonical_prefix @ js_replace q ''vscode:///'' ''vscode://''"
  by (simp add: canonical_prefix_def)

lemma js_replace_length:
  "js_includes s p \<Longrightarrow> length (js_replace s p r) + length p = length s + length r"
proof (induction s)
  case Nil
  then show ?case by simp
next
  case (Cons c cs)
  show ?case
  proof (cases "prefix p (c # cs)")
    case True
    then have "length p \<le> length (c # cs)"
      by (rule prefix_length_le)
    with True show ?thesis by simp
  next
    case False
    with Cons show ?thesis by simp
  qed
qed

text \<open>
  The scenario of the specification: the malformed redirect
  \<open>https://vscode//host/path?state=S&code=C\<close> is rewritten and yields code \<open>C\<close> and state \<open>S\<close>.
\<close>

lemma malformed_redirect_scenario:
  "normalizedUriString ''https://vscode//host/path?state=S&code=C''
     = ''vscode://host/path?state=S&code=C''
   \<and> extractQueryParams
       \<lparr>uri_query = [], uri_toString = ''https://vscode//host/path?state=S&code=C''\<rparr>
     = (Some ''C'', Some ''S'')"
  by (simp add: normalizedUriString_def extractQueryParams_def truthy_def)

subsection \<open>Canonical input\<close>

text \<open>
  On arbitrary strings with the canonical prefix the rules are not the identity: the
  last two test with \<open>includes\<close>, anywhere in the string. A string of the canonical form,
  \<open>canonical_prefix\<close> followed by \<open>q\<close>, is left unchanged exactly when \<open>q\<close> contains neither
  \<open>vscode:/zoho-projects\<close> nor \<open>vscode:///\<close>.
\<close>

lemma normalizedUriString_canonical_iff:
  "normalizedUriString (canonical_prefix @ q) = canonical_prefix @ q
     \<longleftrightarrow> \<not> js_includes q ''vscode:/zoho-projects'' \<and> \<not> js_includes q ''vscode:///''"
proof (cases "js_includes q ''vscode:/zoho-projects''")
  case True
  have "normalizedUriString (canonical_prefix @ q)
          = js_replace (canonical_prefix @ q) ''vscode:/'' ''vscode://''"
    using True
    by (simp add: normalizedUriString_def js_includes_canonical_single_slash)
       (simp add: canonical_prefix_def)
  moreover have "length (js_replace (canonical_prefix @ q) ''vscode:/'' ''vscode://'')
                   \<noteq> length (canonical_prefix @ q)"
    by (simp add: canonical_prefix_def)
  ultimately show ?thesis
    using True by auto
next
  case False
  note single = this
  show ?thesis
  proof (cases "js_includes q ''vscode:///''")
    case True
    have "normalizedUriString (canonical_prefix @ q)
            = canonical_prefix @ js_replace q ''vscode:///'' ''vscode://''"
      using True single
      by (simp add: normalizedUriString_def js_includes_canonical_single_slash
            js_includes_canonical_triple_slash js_replace_canonical_triple_slash)
         (simp add: canonical_prefix_def)
    moreover have "length (js_replace q ''vscode:///'' ''vscode://'') \<noteq> length q"
      using js_replace_length [OF True, of "''vscode://''"] by simp
    ultimately show ?thesis
      using True by auto
  next
    case False
    have "normalizedUriString (canonical_prefix @ q) = canonical_prefix @ q"
      using False single
      by (simp add: normalizedUriString_def js_includes_canonical_single_slash
            js_includes_canonical_triple_slash)
         (simp add: canonical_prefix_def)
    then show ?thesis
      using False single by simp
  qed
qed

lemma js_includes_subset: "js_includes s p \<Longrightarrow> set p \<subseteq> set s"
proof (induction s)
  case Nil
  then show ?case by simp
next
  case (Cons c cs)
  show ?case
  proof (cases "prefix p (c # cs)")
    case True
    then show ?thesis
      by (rule set_mono_prefix)
  next
    case False
    with Cons show ?thesis by auto
  qed
qed

text \<open>
  Claim C8. The rewrite rules are applied to \<open>uri.toString()\<close> of the \<open>vscode.Uri\<close> that the
  handler received, and \<open>toString()\<close> writes the query and the fragment percent-encoded:
  a colon there arrives as \<open>%3A\<close>, so after the \<open>?\<close> of such a string there is no colon. For every
  string of the canonical form \<open>vscode://zoho-projects-time-tracker/auth-callback?q\<close>
  with no colon in \<open>q\<close>, the ordered rewrite rules leave the string unchanged, and
  \<open>extractQueryParams\<close> on a URI with that string returns what it would return without the
  rewrite pass: the parameters of the parsed query if both are there, and otherwise what
  the regular expressions find in the string itself.
\<close>

theorem normalizedUriString_canonical_unchanged:
  assumes "CHR '':'' \<notin> set q"
  shows "normalizedUriString (canonical_prefix @ q) = canonical_prefix @ q
       \<and> (uri_toString uri = canonical_prefix @ q \<longrightarrow>
            extractQueryParams uri =
              (if truthy (map_of (uri_query uri) ''code'')
                  \<and> truthy (map_of (uri_query uri) ''state'')
               then (map_of (uri_query uri) ''code'', map_of (uri_query uri) ''state'')
               else (match_param ''code'' (uri_toString uri),
                     match_param ''state'' (uri_toString uri))))"
proof -
  have single: "\<not> js_includes q ''vscode:/zoho-projects''"
    using assms js_includes_subset [of q "''vscode:/zoho-projects''"] by auto
  have triple: "\<not> js_includes q ''vscode:///''"
    using assms js_includes_subset [of q "''vscode:///''"] by auto
  have same: "normalizedUriString (canonical_prefix @ q) = canonical_prefix @ q"
    using single triple normalizedUriString_canonical_iff [of q] by simp
  then show ?thesis
    by (simp add: extractQueryParams_def Let_def)
qed

text \<open>
  The witness is the string that \<open>toString()\<close> gives for the query \<open>state=S&code=C\<close>.
\<close>

theorem normalizedUriString_canonical_unchanged_witness:
  "normalizedUriString (canonical_prefix @ ''state%3DS%26code%3DC'')
     = canonical_prefix @ ''state%3DS%26code%3DC''
   \<and> extractQueryParams
       \<lparr>uri_query = [(''state'', ''S''), (''code'', ''C'')],
        uri_toString = canonical_prefix @ ''state%3DS%26code%3DC''\<rparr>
     = (Some ''C'', Some ''S'')"
  using normalizedUriString_canonical_unchanged
    [of "''state%3DS%26code%3DC''"
        "\<lparr>uri_query = [(''state'', ''S''), (''code'', ''C'')],
          uri_toString = canonical_prefix @ ''state%3DS%26code%3DC''\<rparr>"]
  by (simp add: truthy_def)

end
